theory Spec2Isabelle
  imports Main
begin

section \<open>Errors\<close>

text \<open>
  Every exception the execution rules raise is a value; a rule returns
  \<open>error + 'a\<close> with \<open>Inl\<close> for the raised exception. The string is the message.
\<close>

datatype error =
    TypeError string
  | ValueError string
  | KeyError string
  | AssertionError string
  | NotImplementedError string
  | IbisError string
  | OperationNotDefinedError string
  | AttributeError string
  | IndexError string

definition bind :: "error + 'a \<Rightarrow> ('a \<Rightarrow> error + 'b) \<Rightarrow> error + 'b" where
  "bind m f = (case m of Inl e \<Rightarrow> Inl e | Inr x \<Rightarrow> f x)"

section \<open>Classes used as dispatch tags\<close>

text \<open>
  The classes that occur in the signatures registered in
  \<^verbatim>\<open>ibis/dask/execution/generic.py\<close> and as keys of the tables of
  \<^verbatim>\<open>ibis/dask/client.py\<close>: operation classes (\<open>ops_\<close>), logical type classes
  (\<open>dt_\<close>), and the classes of native values.
\<close>

datatype pyclass =
    py_object
  | NoneType | py_bool | py_int | py_float | py_str
  | numbers_Real | decimal_Decimal
  | datetime_date | datetime_time | datetime_datetime | datetime_timedelta
  | np_bool | np_integer
  | pd_Timestamp | pd_Timedelta
  | dd_Series | dd_DataFrame | SeriesGroupBy | DataFrameGroupBy
  | ops_Literal | ops_Cast | ops_Where
  | dt_DataType | dt_Null | dt_Boolean
  | dt_Integer | dt_SignedInteger | dt_UnsignedInteger
  | dt_Int8 | dt_Int16 | dt_Int32 | dt_Int64
  | dt_UInt8 | dt_UInt16 | dt_UInt32 | dt_UInt64
  | dt_Floating | dt_Float16 | dt_Float32 | dt_Float64
  | dt_String | dt_Binary | dt_Date | dt_Time | dt_Timestamp
  | dt_Interval | dt_Decimal | dt_Category | dt_Array | dt_Struct

text \<open>
  \<open>bases c\<close> lists every proper superclass of \<open>c\<close> (its method resolution order
  without \<open>c\<close> itself, abstract base classes a class is registered with
  included). \<open>bool\<close> is a subclass of \<open>int\<close>; \<open>int\<close>, \<open>float\<close> and
  \<open>np.integer\<close> are \<open>numbers.Real\<close>; \<open>datetime.datetime\<close> derives from
  \<open>datetime.date\<close> and \<open>pandas.Timestamp\<close> from \<open>datetime.datetime\<close>; a grouped
  series is not a series.
\<close>

fun bases :: "pyclass \<Rightarrow> pyclass list" where
  "bases py_object = []"
| "bases py_bool = [py_int, numbers_Real, py_object]"
| "bases py_int = [numbers_Real, py_object]"
| "bases py_float = [numbers_Real, py_object]"
| "bases np_integer = [numbers_Real, py_object]"
| "bases datetime_datetime = [datetime_date, py_object]"
| "bases pd_Timestamp = [datetime_datetime, datetime_date, py_object]"
| "bases pd_Timedelta = [datetime_timedelta, py_object]"
| "bases dt_DataType = [py_object]"
| "bases dt_Integer = [dt_DataType, py_object]"
| "bases dt_SignedInteger = [dt_Integer, dt_DataType, py_object]"
| "bases dt_UnsignedInteger = [dt_Integer, dt_DataType, py_object]"
| "bases dt_Int8 = [dt_SignedInteger, dt_Integer, dt_DataType, py_object]"
| "bases dt_Int16 = [dt_SignedInteger, dt_Integer, dt_DataType, py_object]"
| "bases dt_Int32 = [dt_SignedInteger, dt_Integer, dt_DataType, py_object]"
| "bases dt_Int64 = [dt_SignedInteger, dt_Integer, dt_DataType, py_object]"
| "bases dt_UInt8 = [dt_UnsignedInteger, dt_Integer, dt_DataType, py_object]"
| "bases dt_UInt16 = [dt_UnsignedInteger, dt_Integer, dt_DataType, py_object]"
| "bases dt_UInt32 = [dt_UnsignedInteger, dt_Integer, dt_DataType, py_object]"
| "bases dt_UInt64 = [dt_UnsignedInteger, dt_Integer, dt_DataType, py_object]"
| "bases dt_Floating = [dt_DataType, py_object]"
| "bases dt_Float16 = [dt_Floating, dt_DataType, py_object]"
| "bases dt_Float32 = [dt_Floating, dt_DataType, py_object]"
| "bases dt_Float64 = [dt_Floating, dt_DataType, py_object]"
| "bases dt_Null = [dt_DataType, py_object]"
| "bases dt_Boolean = [dt_DataType, py_object]"
| "bases dt_String = [dt_DataType, py_object]"
| "bases dt_Binary = [dt_DataType, py_object]"
| "bases dt_Date = [dt_DataType, py_object]"
| "bases dt_Time = [dt_DataType, py_object]"
| "bases dt_Timestamp = [dt_DataType, py_object]"
| "bases dt_Interval = [dt_DataType, py_object]"
| "bases dt_Decimal = [dt_DataType, py_object]"
| "bases dt_Category = [dt_DataType, py_object]"
| "bases dt_Array = [dt_DataType, py_object]"
| "bases dt_Struct = [dt_DataType, py_object]"
| "bases c = [py_object]"

definition issubclass :: "pyclass \<Rightarrow> pyclass \<Rightarrow> bool" where
  "issubclass c d = (c = d \<or> d \<in> set (bases c))"

section \<open>Logical types and native types\<close>

text \<open>
  Modelled from the spec: the logical types of \<^verbatim>\<open>ibis.expr.datatypes\<close> (the module
  is not among the source files). A logical type is a tagged value (boolean,
  integer width, floating width, string, timestamp with an optional timezone,
  interval with a unit, array-of, struct, decimal, null, category); two logical
  types are equal by structural comparison.
\<close>

datatype dtype =
    Null | Boolean
  | Int8 | Int16 | Int32 | Int64
  | UInt8 | UInt16 | UInt32 | UInt64
  | Float16 | Float32 | Float64
  | String | Binary | Date | Time
  | Timestamp "string option"
  | Interval string
  | Decimal nat nat
  | Category
  | Array dtype
  | Struct "(string \<times> dtype) list"

text \<open>\<open>type(ibis_dtype)\<close>: the class of a logical type.\<close>

fun type_of :: "dtype \<Rightarrow> pyclass" where
  "type_of Null = dt_Null"
| "type_of Boolean = dt_Boolean"
| "type_of Int8 = dt_Int8"
| "type_of Int16 = dt_Int16"
| "type_of Int32 = dt_Int32"
| "type_of Int64 = dt_Int64"
| "type_of UInt8 = dt_UInt8"
| "type_of UInt16 = dt_UInt16"
| "type_of UInt32 = dt_UInt32"
| "type_of UInt64 = dt_UInt64"
| "type_of Float16 = dt_Float16"
| "type_of Float32 = dt_Float32"
| "type_of Float64 = dt_Float64"
| "type_of String = dt_String"
| "type_of Binary = dt_Binary"
| "type_of Date = dt_Date"
| "type_of Time = dt_Time"
| "type_of (Timestamp tz) = dt_Timestamp"
| "type_of (Interval u) = dt_Interval"
| "type_of (Decimal p s) = dt_Decimal"
| "type_of Category = dt_Category"
| "type_of (Array t) = dt_Array"
| "type_of (Struct fs) = dt_Struct"

definition isinstance_dt :: "dtype \<Rightarrow> pyclass \<Rightarrow> bool" where
  "isinstance_dt t c = issubclass (type_of t) c"

text \<open>
  The native types: numpy dtypes (a datetime or timedelta dtype carries its unit,
  \<open>None\<close> for the generic one; a unicode dtype carries its length), the
  timezone-aware datetime dtype of pandas and its categorical dtype.
\<close>

datatype native =
    dtype_bool | dtype_object
  | dtype_int8 | dtype_int16 | dtype_int32 | dtype_int64
  | dtype_uint8 | dtype_uint16 | dtype_uint32 | dtype_uint64
  | dtype_float16 | dtype_float32 | dtype_float64
  | dtype_unicode nat
  | dtype_datetime64 "string option"
  | dtype_timedelta64 "string option"
  | DatetimeTZDtype string string
  | CategoricalDtype

text \<open>\<^verbatim>\<open>client.py\<close>, \<open>_ibis_dtypes\<close>: keyed by the class of the logical type.\<close>

definition ibis_dtypes :: "(pyclass \<times> native) list" where
  "ibis_dtypes =
    [(dt_Boolean, dtype_bool),
     (dt_Null, dtype_object),
     (dt_Array, dtype_object),
     (dt_String, dtype_object),
     (dt_Binary, dtype_object),
     (dt_Date, dtype_datetime64 (Some ''ns'')),
     (dt_Time, dtype_timedelta64 (Some ''ns'')),
     (dt_Timestamp, dtype_datetime64 (Some ''ns'')),
     (dt_Int8, dtype_int8),
     (dt_Int16, dtype_int16),
     (dt_Int32, dtype_int32),
     (dt_Int64, dtype_int64),
     (dt_UInt8, dtype_uint8),
     (dt_UInt16, dtype_uint16),
     (dt_UInt32, dtype_uint32),
     (dt_UInt64, dtype_uint64),
     (dt_Float32, dtype_float32),
     (dt_Float64, dtype_float64),
     (dt_Decimal, dtype_object),
     (dt_Struct, dtype_object)]"

text \<open>
  \<^verbatim>\<open>client.py\<close>, \<open>_numpy_dtypes\<close>, in the order of the dict literal, each key
  already passed through \<open>np.dtype\<close>: \<open>'double'\<close> is the float64 dtype,
  \<open>'unicode'\<close> and \<open>'str'\<close> are the unicode dtype of length 0, \<open>dt.interval\<close> is
  the interval type of the default unit \<open>'s'\<close>.
\<close>

definition numpy_dtypes :: "(native \<times> dtype) list" where
  "numpy_dtypes =
    [(dtype_bool, Boolean),
     (dtype_int8, Int8),
     (dtype_int16, Int16),
     (dtype_int32, Int32),
     (dtype_int64, Int64),
     (dtype_uint8, UInt8),
     (dtype_uint16, UInt16),
     (dtype_uint32, UInt32),
     (dtype_uint64, UInt64),
     (dtype_float16, Float16),
     (dtype_float32, Float32),
     (dtype_float64, Float64),
     (dtype_float64, Float64),
     (dtype_unicode 0, String),
     (dtype_unicode 0, String),
     (dtype_datetime64 None, Timestamp None),
     (dtype_datetime64 (Some ''ns''), Timestamp None),
     (dtype_timedelta64 None, Interval ''s''),
     (dtype_timedelta64 (Some ''ns''), Interval ''ns'')]"

text \<open>A dict built from a list of pairs keeps the last value of a repeated key.\<close>

definition dict_get :: "('k \<times> 'v) list \<Rightarrow> 'k \<Rightarrow> 'v option" where
  "dict_get kvs k = map_of (rev kvs) k"

text \<open>
  \<open>np.dtype('timedelta64[u]')\<close>: numpy accepts the units below and raises
  \<open>TypeError\<close> on any other.
\<close>

definition numpy_time_units :: "string list" where
  "numpy_time_units =
    [''Y'', ''M'', ''W'', ''D'', ''h'', ''m'', ''s'', ''ms'', ''us'', ''ns'', ''ps'', ''fs'', ''as'']"

definition np_dtype_timedelta64 :: "string \<Rightarrow> error + native" where
  "np_dtype_timedelta64 u =
    (if u \<in> set numpy_time_units then Inr (dtype_timedelta64 (Some u))
     else Inl (TypeError ''Invalid datetime unit in metadata''))"

text \<open>
  The constructor \<open>DatetimeTZDtype(unit, tz)\<close> looks the zone name up in the
  timezone database, which is outside the program: \<open>Z name\<close> is \<open>str\<close> of the
  timezone the name denotes (its canonical name: \<open>UTC\<close> for \<open>utc\<close>), and \<open>None\<close>
  when the database has no such zone; the constructor then raises
  \<open>UnknownTimeZoneError\<close>, a \<open>KeyError\<close>. The native type keeps the timezone,
  here by its canonical name.
\<close>

type_synonym tzdb = "string \<Rightarrow> string option"

definition new_DatetimeTZDtype :: "tzdb \<Rightarrow> string \<Rightarrow> string \<Rightarrow> error + native" where
  "new_DatetimeTZDtype Z unit tz =
    (case Z tz of
       None \<Rightarrow> Inl (KeyError tz)
     | Some name \<Rightarrow> Inr (DatetimeTZDtype unit name))"

text \<open>
  \<^verbatim>\<open>client.py\<close>, \<open>ibis_dtype_to_dask\<close>. The timezone test is Python truthiness:
  \<open>None\<close> and the empty string are both false.
\<close>

definition ibis_dtype_to_dask :: "tzdb \<Rightarrow> dtype \<Rightarrow> error + native" where
  "ibis_dtype_to_dask Z ibis_dtype =
    (case ibis_dtype of
       Timestamp (Some tz) \<Rightarrow>
         (if tz \<noteq> [] then new_DatetimeTZDtype Z ''ns'' tz
          else Inr (dtype_datetime64 (Some ''ns'')))
     | Interval u \<Rightarrow> np_dtype_timedelta64 u
     | Category \<Rightarrow> Inr CategoricalDtype
     | _ \<Rightarrow>
         (case dict_get ibis_dtypes (type_of ibis_dtype) of
            Some d \<Rightarrow> Inr d
          | None \<Rightarrow> Inr dtype_object))"

text \<open>\<^verbatim>\<open>client.py\<close>, \<open>from_numpy_dtype\<close>, \<open>from_dask_tzdtype\<close>, \<open>from_dask_categorical\<close>.\<close>

definition from_numpy_dtype :: "native \<Rightarrow> error + dtype" where
  "from_numpy_dtype v =
    (case dict_get numpy_dtypes v of
       Some t \<Rightarrow> Inr t
     | None \<Rightarrow> Inl (TypeError ''numpy dtype is not supported in the dask backend''))"

text \<open>
  \<open>dt.dtype\<close> on a native type dispatches on its class. \<open>str(value.tz)\<close> is the
  canonical name the native type keeps.
\<close>

definition dt_dtype :: "native \<Rightarrow> error + dtype" where
  "dt_dtype v =
    (case v of
       DatetimeTZDtype u tz \<Rightarrow> Inr (Timestamp (Some tz))
     | CategoricalDtype \<Rightarrow> Inr Category
     | _ \<Rightarrow> from_numpy_dtype v)"

definition logical_roundtrip :: "tzdb \<Rightarrow> dtype \<Rightarrow> error + dtype" where
  "logical_roundtrip Z t = bind (ibis_dtype_to_dask Z t) dt_dtype"

section \<open>The dispatch registry\<close>

text \<open>
  Modelled from the spec: the dispatchers \<open>execute_node\<close> and \<open>execute_literal\<close>
  (\<^verbatim>\<open>ibis.dask.dispatch\<close>, built on the multiple-dispatch library) are not among
  the source files; only the registrations are. A registry maps ordered type
  signatures to implementations. Registering a tuple of alternative types at a
  position registers one signature for each alternative. Resolution selects the
  most specific registered signature whose patterns all match the runtime types
  component-wise, where a signature is at least as specific as another when it
  is component-wise a subclass of it; among registrations of equal specificity
  the later one shadows the earlier one; with no matching signature resolution
  fails.
\<close>

type_synonym signature = "pyclass list"

type_synonym 'h registry = "(signature \<times> 'h) list"

fun expand :: "pyclass list list \<Rightarrow> signature list" where
  "expand [] = [[]]"
| "expand (ts # rest) = concat (map (\<lambda>t. map ((#) t) (expand rest)) ts)"

definition register :: "pyclass list list \<Rightarrow> 'h \<Rightarrow> 'h registry \<Rightarrow> 'h registry" where
  "register types h reg = reg @ map (\<lambda>s. (s, h)) (expand types)"

definition supercedes :: "signature \<Rightarrow> signature \<Rightarrow> bool" where
  "supercedes a b = list_all2 issubclass a b"

definition matching :: "'h registry \<Rightarrow> pyclass list \<Rightarrow> 'h registry" where
  "matching reg types = filter (\<lambda>e. supercedes types (fst e)) reg"

definition more_specific :: "signature \<times> 'h \<Rightarrow> signature \<times> 'h \<Rightarrow> signature \<times> 'h" where
  "more_specific d b = (if supercedes (fst d) (fst b) then d else b)"

definition resolve :: "'h registry \<Rightarrow> pyclass list \<Rightarrow> error + 'h" where
  "resolve reg types =
    (case matching reg types of
       [] \<Rightarrow> Inl (NotImplementedError ''Could not find signature'')
     | c # cs \<Rightarrow> Inr (snd (fold more_specific cs c)))"

text \<open>
  The tuples of native scalar classes that the registrations use
  (\<open>integer_types\<close>, \<open>fixed_width_types\<close>, ...) are imported from
  \<^verbatim>\<open>ibis.dask.core\<close>, which is not among the source files: they are parameters.
\<close>

record core_types =
  boolean_types :: "pyclass list"
  integer_types :: "pyclass list"
  fixed_width_types :: "pyclass list"
  scalar_types :: "pyclass list"
  timedelta_types :: "pyclass list"

section \<open>Cast\<close>

text \<open>The implementations registered for \<open>ops.Cast\<close>, by the name of the function.\<close>

datatype cast_handler =
    h_execute_cast_series_group_by
  | h_execute_cast_series_generic
  | h_execute_cast_series_array
  | h_execute_cast_series_timestamp
  | h_execute_cast_series_date
  | h_execute_cast_null_to_anything
  | h_execute_cast_datetime_or_timestamp_to_string
  | h_execute_cast_datetime_to_integer
  | h_execute_cast_timestamp_to_integer
  | h_execute_cast_bool_to_timestamp
  | h_execute_cast_bool_to_interval
  | h_execute_cast_simple_literal_to_timestamp
  | h_execute_cast_timestamp_to_timestamp
  | h_execute_cast_datetime_to_datetime
  | h_execute_cast_string_literal

text \<open>
  The registrations of \<^verbatim>\<open>generic.py\<close> whose operation class is \<open>ops.Cast\<close>, in
  source order. The registrations for other operation classes have another
  operation class in the first position and cannot match a Cast node.
\<close>

definition cast_registry :: "core_types \<Rightarrow> cast_handler registry" where
  "cast_registry ct =
    (register [[ops_Cast], fixed_width_types ct @ [py_str], [dt_DataType]]
       h_execute_cast_string_literal
    (register [[ops_Cast], [datetime_datetime], [dt_Timestamp]]
       h_execute_cast_datetime_to_datetime
    (register [[ops_Cast], [pd_Timestamp], [dt_Timestamp]]
       h_execute_cast_timestamp_to_timestamp
    (register [[ops_Cast], integer_types ct @ [py_str], [dt_Timestamp]]
       h_execute_cast_simple_literal_to_timestamp
    (register [[ops_Cast], [np_bool, py_bool], [dt_Interval]]
       h_execute_cast_bool_to_interval
    (register [[ops_Cast], [np_bool, py_bool], [dt_Timestamp]]
       h_execute_cast_bool_to_timestamp
    (register [[ops_Cast], [pd_Timestamp], [dt_Int64]]
       h_execute_cast_timestamp_to_integer
    (register [[ops_Cast], [datetime_datetime], [dt_Int64]]
       h_execute_cast_datetime_to_integer
    (register [[ops_Cast], [datetime_datetime], [dt_String]]
       h_execute_cast_datetime_or_timestamp_to_string
    (register [[ops_Cast], [NoneType], [dt_DataType]]
       h_execute_cast_null_to_anything
    (register [[ops_Cast], [dd_Series], [dt_Date]]
       h_execute_cast_series_date
    (register [[ops_Cast], [dd_Series], [dt_Timestamp]]
       h_execute_cast_series_timestamp
    (register [[ops_Cast], [dd_Series], [dt_Array]]
       h_execute_cast_series_array
    (register [[ops_Cast], [dd_Series], [dt_DataType]]
       h_execute_cast_series_generic
    (register [[ops_Cast], [SeriesGroupBy], [dt_DataType]]
       h_execute_cast_series_group_by
       [])))))))))))))))"

definition apostrophe :: string where
  "apostrophe = [CHR 0x27]"

subsection \<open>Columns\<close>

text \<open>
  A cell is a native scalar: \<open>None\<close>, a boolean, an integer or a string (points
  in time are integers). A series is a named column of cells over an index, with
  its native type. A grouped series is an object of the class \<open>SeriesGroupBy\<close> of
  \<^verbatim>\<open>dask.dataframe.groupby\<close> (the class \<^verbatim>\<open>generic.py\<close> imports and registers): it
  keeps the underlying series as \<open>obj\<close> and the keys it is grouped by.
\<close>

datatype cell = CNull | CBool bool | CInt int | CStr string

record series =
  sname :: string
  sindex :: "cell list"
  svalues :: "cell list"
  sdtype :: native

datatype grouping = by_name string | by_series series

record series_group_by =
  obj :: series
  group_keys :: "grouping list"

definition groupby :: "series \<Rightarrow> grouping list \<Rightarrow> series_group_by" where
  "groupby s gs = \<lparr>obj = s, group_keys = gs\<rparr>"

text \<open>
  \<open>data.grouper\<close>: the grouped series of dask has no attribute \<open>grouper\<close> (the
  grouped series of pandas has one), so reading it raises \<open>AttributeError\<close>, and
  \<open>data.grouper.groupings\<close> has no value.
\<close>

definition grouper_groupings :: "series_group_by \<Rightarrow> error + grouping list" where
  "grouper_groupings data =
    Inl (AttributeError (apostrophe @ ''SeriesGroupBy'' @ apostrophe
      @ '' object has no attribute '' @ apostrophe @ ''grouper'' @ apostrophe))"

text \<open>
  The columnar kernels of the engine are outside the execution rules (they only
  decide which kernel to call): each is a parameter. \<open>convert\<close> is \<open>astype\<close> to a
  native type other than the one the series has.
\<close>

record kernels =
  convert :: "series \<Rightarrow> native \<Rightarrow> error + series"
  to_datetime :: "series \<Rightarrow> error + series"
  to_datetime_days :: "series \<Rightarrow> error + series"
  tz_convert :: "series \<Rightarrow> string option \<Rightarrow> error + series"
  tz_localize :: "series \<Rightarrow> string option \<Rightarrow> error + series"
  normalize :: "series \<Rightarrow> error + series"
  map_numpy_type :: "series \<Rightarrow> native \<Rightarrow> error + series"

text \<open>\<open>Series.astype\<close>: a series that already has the requested native type is copied as it is.\<close>

definition astype :: "kernels \<Rightarrow> series \<Rightarrow> native \<Rightarrow> error + series" where
  "astype K s d = (if sdtype s = d then Inr s else convert K s d)"

text \<open>
  \<open>constants.IBIS_TYPE_TO_DASK_TYPE\<close> is a dict of \<^verbatim>\<open>ibis.dask.execution.constants\<close>,
  which is not among the source files: it is a parameter, from logical types
  to native types.
\<close>

record constants =
  IBIS_TYPE_TO_DASK_TYPE :: "(dtype \<times> native) list"

text \<open>A Cast node: the logical type of its argument (\<open>op.arg.type()\<close>) and the target.\<close>

record cast_op =
  arg_type :: dtype
  to_type :: dtype

definition execute_cast_series_generic ::
  "constants \<Rightarrow> kernels \<Rightarrow> cast_op \<Rightarrow> series \<Rightarrow> dtype \<Rightarrow> error + series" where
  "execute_cast_series_generic C K op data type =
    (case dict_get (IBIS_TYPE_TO_DASK_TYPE C) type of
       None \<Rightarrow> Inl (KeyError ''IBIS_TYPE_TO_DASK_TYPE'')
     | Some d \<Rightarrow> astype K data d)"

definition execute_cast_series_group_by ::
  "constants \<Rightarrow> kernels \<Rightarrow> cast_op \<Rightarrow> series_group_by \<Rightarrow> dtype \<Rightarrow> error + series_group_by" where
  "execute_cast_series_group_by C K op data type =
    bind (execute_cast_series_generic C K op (obj data) type)
      (\<lambda>result. bind (grouper_groupings data)
        (\<lambda>groupings. Inr (groupby result groupings)))"

definition execute_cast_series_array ::
  "constants \<Rightarrow> kernels \<Rightarrow> cast_op \<Rightarrow> series \<Rightarrow> dtype \<Rightarrow> error + series" where
  "execute_cast_series_array C K op data type =
    (case type of
       Array value_type \<Rightarrow>
         (case dict_get (IBIS_TYPE_TO_DASK_TYPE C) value_type of
            None \<Rightarrow> Inl (ValueError ''Array value type must be a primitive type (e.g., number, string, or timestamp)'')
          | Some numpy_type \<Rightarrow> map_numpy_type K data numpy_type)
     | _ \<Rightarrow> Inl (AttributeError ''value_type''))"

definition has_tz :: "series \<Rightarrow> bool" where
  "has_tz s = (case sdtype s of DatetimeTZDtype u tz \<Rightarrow> True | _ \<Rightarrow> False)"

definition execute_cast_series_timestamp ::
  "kernels \<Rightarrow> cast_op \<Rightarrow> series \<Rightarrow> dtype \<Rightarrow> error + series" where
  "execute_cast_series_timestamp K op data type =
    (let from_type = arg_type op in
     if from_type = type then Inr data
     else
       (case type of
          Timestamp tz \<Rightarrow>
            if isinstance_dt from_type dt_Timestamp \<or> isinstance_dt from_type dt_Date then
              astype K data
                (case tz of None \<Rightarrow> dtype_datetime64 (Some ''ns'')
                 | Some z \<Rightarrow> DatetimeTZDtype ''ns'' z)
            else if isinstance_dt from_type dt_String \<or> isinstance_dt from_type dt_Integer then
              bind (to_datetime K data) (\<lambda>timestamps.
              bind (astype K timestamps (sdtype timestamps)) (\<lambda>timestamps.
                if has_tz timestamps then tz_convert K timestamps tz
                else tz_localize K timestamps tz))
            else Inl (TypeError ''Don't know how to cast'')
        | _ \<Rightarrow> Inl (AttributeError ''timezone'')))"

definition execute_cast_series_date ::
  "kernels \<Rightarrow> cast_op \<Rightarrow> series \<Rightarrow> dtype \<Rightarrow> error + series" where
  "execute_cast_series_date K op data type =
    (let from_type = arg_type op in
     if from_type = type then Inr data
     else if isinstance_dt from_type dt_Timestamp then normalize K data
     else if from_type = String then
       bind (to_datetime K data) (\<lambda>datetimes.
       bind (case tz_convert K datetimes None of
               Inl (TypeError m) \<Rightarrow> Inr datetimes
             | r \<Rightarrow> r)
            (normalize K))
     else if isinstance_dt from_type dt_Integer then to_datetime_days K data
     else Inl (TypeError ''Don't know how to cast''))"

definition bool_to_timestamp_message :: string where
  "bool_to_timestamp_message =
    ''Casting boolean values to timestamps does not make sense. If you ''
    @ ''really want to cast boolean values to timestamps please cast to ''
    @ ''int64 first then to timestamp: ''
    @ ''value.cast('' @ apostrophe @ ''int64'' @ apostrophe @ '').cast(''
    @ apostrophe @ ''timestamp'' @ apostrophe @ '')''"

definition bool_to_interval_message :: string where
  "bool_to_interval_message =
    ''Casting boolean values to intervals does not make sense. If you ''
    @ ''really want to cast boolean values to intervals please cast to ''
    @ ''int64 first then to interval: ''
    @ ''value.cast('' @ apostrophe @ ''int64'' @ apostrophe
    @ '').cast(ibis.expr.datatypes.Interval(...))''"

definition execute_cast_bool_to_timestamp :: "cast_op \<Rightarrow> bool \<Rightarrow> dtype \<Rightarrow> error + cell" where
  "execute_cast_bool_to_timestamp op data type = Inl (TypeError bool_to_timestamp_message)"

definition execute_cast_bool_to_interval :: "cast_op \<Rightarrow> bool \<Rightarrow> dtype \<Rightarrow> error + cell" where
  "execute_cast_bool_to_interval op data type = Inl (TypeError bool_to_interval_message)"

subsection \<open>Scalar points in time\<close>

text \<open>
  A scalar point in time is a \<open>datetime.datetime\<close> of the standard library, with
  its \<open>tzinfo\<close>, or a \<open>Timestamp\<close> of pandas (a subclass of it), with its \<open>tz\<close>.
  Only the pandas class has the attributes \<open>tz\<close> and \<open>to_pydatetime\<close>.
\<close>

datatype point = py_datetime int "string option" | pd_timestamp int "string option"

fun class_of_point :: "point \<Rightarrow> pyclass" where
  "class_of_point (py_datetime i tzinfo) = datetime_datetime"
| "class_of_point (pd_timestamp i tz) = pd_Timestamp"

fun point_tz :: "point \<Rightarrow> error + string option" where
  "point_tz (pd_timestamp i tz) = Inr tz"
| "point_tz (py_datetime i tzinfo) =
     Inl (AttributeError (apostrophe @ ''datetime.datetime'' @ apostrophe
       @ '' object has no attribute '' @ apostrophe @ ''tz'' @ apostrophe))"

fun to_pydatetime :: "point \<Rightarrow> error + point" where
  "to_pydatetime (pd_timestamp i tz) = Inr (py_datetime i tz)"
| "to_pydatetime (py_datetime i tzinfo) =
     Inl (AttributeError (apostrophe @ ''datetime.datetime'' @ apostrophe
       @ '' object has no attribute '' @ apostrophe @ ''to_pydatetime'' @ apostrophe))"

text \<open>\<open>Timestamp.tz_localize\<close> and \<open>Timestamp.tz_convert\<close> are kernels of pandas.\<close>

record point_kernels =
  point_tz_localize :: "point \<Rightarrow> string option \<Rightarrow> error + point"
  point_tz_convert :: "point \<Rightarrow> string option \<Rightarrow> error + point"

definition execute_cast_timestamp_to_timestamp ::
  "point_kernels \<Rightarrow> cast_op \<Rightarrow> point \<Rightarrow> dtype \<Rightarrow> error + point" where
  "execute_cast_timestamp_to_timestamp P op data type =
    bind (point_tz data) (\<lambda>input_timezone.
      case type of
        Timestamp target_timezone \<Rightarrow>
          if input_timezone = target_timezone then Inr data
          else if input_timezone = None \<or> target_timezone = None
            then point_tz_localize P data target_timezone
          else point_tz_convert P data target_timezone
      | _ \<Rightarrow> Inl (AttributeError ''timezone''))"

text \<open>
  \<open>execute_cast_datetime_to_datetime\<close> calls the function above directly, not
  through the dispatcher.
\<close>

definition execute_cast_datetime_to_datetime ::
  "point_kernels \<Rightarrow> cast_op \<Rightarrow> point \<Rightarrow> dtype \<Rightarrow> error + point" where
  "execute_cast_datetime_to_datetime P op data type =
    bind (execute_cast_timestamp_to_timestamp P op data type) to_pydatetime"

section \<open>Literal\<close>

text \<open>
  The value stored in a Literal node is a native Python value. Floating point
  numbers are not interpreted: \<open>'f\<close> stands for them, and the conversions of the
  language that involve them are parameters, as is the \<open>Timedelta\<close> constructor.
\<close>

datatype 'f pyvalue = PNone | PBool bool | PInt int | PFloat 'f | PStr string

record 'f builtins =
  float_trunc :: "'f \<Rightarrow> error + int"
  float_is_zero :: "'f \<Rightarrow> bool"
  float_of_int :: "int \<Rightarrow> error + 'f"
  float_of_str :: "string \<Rightarrow> error + 'f"
  int_of_str :: "string \<Rightarrow> error + int"
  Timedelta :: "'f pyvalue \<Rightarrow> string \<Rightarrow> error + 'f pyvalue"

fun class_of :: "'f pyvalue \<Rightarrow> pyclass" where
  "class_of PNone = NoneType"
| "class_of (PBool b) = py_bool"
| "class_of (PInt i) = py_int"
| "class_of (PFloat f) = py_float"
| "class_of (PStr s) = py_str"

text \<open>The built-in coercions \<open>int(value)\<close>, \<open>bool(value)\<close> and \<open>float(value)\<close>.\<close>

fun builtin_int :: "'f builtins \<Rightarrow> 'f pyvalue \<Rightarrow> error + 'f pyvalue" where
  "builtin_int B PNone = Inl (TypeError ''int() argument must be a string, a bytes-like object or a number'')"
| "builtin_int B (PBool b) = Inr (PInt (if b then 1 else 0))"
| "builtin_int B (PInt i) = Inr (PInt i)"
| "builtin_int B (PFloat f) = bind (float_trunc B f) (\<lambda>i. Inr (PInt i))"
| "builtin_int B (PStr s) = bind (int_of_str B s) (\<lambda>i. Inr (PInt i))"

fun builtin_bool :: "'f builtins \<Rightarrow> 'f pyvalue \<Rightarrow> 'f pyvalue" where
  "builtin_bool B PNone = PBool False"
| "builtin_bool B (PBool b) = PBool b"
| "builtin_bool B (PInt i) = PBool (i \<noteq> 0)"
| "builtin_bool B (PFloat f) = PBool (\<not> float_is_zero B f)"
| "builtin_bool B (PStr s) = PBool (s \<noteq> [])"

fun builtin_float :: "'f builtins \<Rightarrow> 'f pyvalue \<Rightarrow> error + 'f pyvalue" where
  "builtin_float B PNone = Inl (TypeError ''float() argument must be a string or a number'')"
| "builtin_float B (PBool b) = bind (float_of_int B (if b then 1 else 0)) (\<lambda>f. Inr (PFloat f))"
| "builtin_float B (PInt i) = bind (float_of_int B i) (\<lambda>f. Inr (PFloat f))"
| "builtin_float B (PFloat f) = Inr (PFloat f)"
| "builtin_float B (PStr s) = bind (float_of_str B s) (\<lambda>f. Inr (PFloat f))"

datatype literal_handler =
    h_execute_node_literal_value_datatype
  | h_execute_node_literal_any_integer_datatype
  | h_execute_node_literal_any_boolean_datatype
  | h_execute_node_literal_any_floating_datatype
  | h_execute_node_literal_datatype
  | h_execute_interval_literal

text \<open>The registrations on \<open>execute_literal\<close>, in source order.\<close>

definition literal_registry :: "core_types \<Rightarrow> literal_handler registry" where
  "literal_registry ct =
    (register [[ops_Literal], timedelta_types ct @ [py_str] @ integer_types ct, [dt_Interval]]
       h_execute_interval_literal
    (register [[ops_Literal], [dt_DataType]]
       h_execute_node_literal_datatype
    (register [[ops_Literal], [py_object], [dt_Floating]]
       h_execute_node_literal_any_floating_datatype
    (register [[ops_Literal], [py_object], [dt_Boolean]]
       h_execute_node_literal_any_boolean_datatype
    (register [[ops_Literal], [py_object], [dt_Integer]]
       h_execute_node_literal_any_integer_datatype
    (register [[ops_Literal], [py_object], [dt_DataType]]
       h_execute_node_literal_value_datatype
       []))))))"

text \<open>
  The bodies of the six implementations; \<open>value\<close> is \<open>op.value\<close>, the value the
  node stores, and the unit of an interval type is \<open>dtype.unit\<close>.
\<close>

fun call_literal ::
  "'f builtins \<Rightarrow> literal_handler \<Rightarrow> 'f pyvalue \<Rightarrow> dtype \<Rightarrow> error + 'f pyvalue" where
  "call_literal B h_execute_node_literal_value_datatype v datatype = Inr v"
| "call_literal B h_execute_node_literal_any_integer_datatype v datatype = builtin_int B v"
| "call_literal B h_execute_node_literal_any_boolean_datatype v datatype = Inr (builtin_bool B v)"
| "call_literal B h_execute_node_literal_any_floating_datatype v datatype = builtin_float B v"
| "call_literal B h_execute_node_literal_datatype v datatype = Inr v"
| "call_literal B h_execute_interval_literal v datatype =
     (case datatype of
        Interval u \<Rightarrow> Timedelta B v u
      | _ \<Rightarrow> Inl (AttributeError ''unit''))"

text \<open>
  Evaluating a Literal node: \<open>execute_literal(op, op.value, expr.type())\<close>
  resolves on the class of the value and the class of the logical type.
\<close>

definition execute_literal ::
  "'f builtins \<Rightarrow> core_types \<Rightarrow> 'f pyvalue \<Rightarrow> dtype \<Rightarrow> error + 'f pyvalue" where
  "execute_literal B ct v datatype =
    bind (resolve (literal_registry ct) [ops_Literal, class_of v, type_of datatype])
      (\<lambda>h. call_literal B h v datatype)"

section \<open>Where\<close>

datatype where_handler =
    h_execute_node_where_series_series_series
  | h_execute_node_where_series_scalar_scalar
  | h_execute_node_where_scalar_scalar_scalar
  | h_execute_node_where_scalar_series_scalar
  | h_execute_node_where_scalar_scalar_series

text \<open>
  The registrations of \<^verbatim>\<open>generic.py\<close> whose operation class is \<open>ops.Where\<close>, in the
  order they are executed: stacked decorators register bottom-up, and each
  \<open>for scalar_type in scalar_types\<close> loop registers one signature per scalar type.
\<close>

definition where_registry :: "core_types \<Rightarrow> where_handler registry" where
  "where_registry ct =
    (register [[ops_Where], boolean_types ct, scalar_types ct, [dd_Series]]
       h_execute_node_where_scalar_scalar_series
    (register [[ops_Where], boolean_types ct, [dd_Series], scalar_types ct]
       h_execute_node_where_scalar_series_scalar
    (fold (\<lambda>scalar_type. register [[ops_Where], boolean_types ct, [scalar_type], [scalar_type]]
             h_execute_node_where_scalar_scalar_scalar) (scalar_types ct)
    (register [[ops_Where], boolean_types ct, [dd_Series], [dd_Series]]
       h_execute_node_where_scalar_scalar_scalar
    (fold (\<lambda>scalar_type. register [[ops_Where], [dd_Series], [scalar_type], [scalar_type]]
             h_execute_node_where_series_scalar_scalar) (scalar_types ct)
    (register [[ops_Where], [dd_Series], [dd_Series], [dd_Series]]
       h_execute_node_where_series_series_series
    (register [[ops_Where], [dd_Series], [dd_Series], scalar_types ct]
       h_execute_node_where_series_series_series
       [])))))))"

text \<open>
  \<open>execute_node_where_scalar_scalar_scalar\<close>: the condition is a scalar boolean;
  the branches are returned as they are, whatever their shape.
\<close>

definition execute_node_where_scalar_scalar_scalar :: "bool \<Rightarrow> 'a \<Rightarrow> 'a \<Rightarrow> 'a" where
  "execute_node_where_scalar_scalar_scalar cond true false = (if cond then true else false)"

section \<open>Row-wise reductions\<close>

text \<open>
  The operands of \<open>Greatest\<close>, \<open>Least\<close> and \<open>Coalesce\<close> arrive as a list of
  evaluated values, each a scalar or a column.
\<close>

datatype operand = OScalar cell | OColumn series

text \<open>
  \<open>len(x)\<close> for the operands that are instances of \<open>collections.abc.Sized\<close>, and
  \<open>None\<close> for the others: a column has a length, and so has a string.
\<close>

fun sized_len :: "operand \<Rightarrow> nat option" where
  "sized_len (OColumn s) = Some (length (svalues s))"
| "sized_len (OScalar (CStr s)) = Some (length s)"
| "sized_len (OScalar c) = None"

text \<open>The set \<open>final_sizes\<close>, as the list of its distinct elements.\<close>

definition final_sizes :: "operand list \<Rightarrow> nat list" where
  "final_sizes value = remdups (List.map_filter sized_len value)"

text \<open>What the reduction function receives and returns: scalars or arrays.\<close>

datatype nd = Sc cell | Arr "cell list"

text \<open>\<open>promote_to_sequence\<close>: \<open>obj.values\<close> of a column, \<open>np.repeat(obj, length)\<close> of a scalar.\<close>

fun promote_to_sequence :: "nat \<Rightarrow> operand \<Rightarrow> nd" where
  "promote_to_sequence len (OColumn s) = Arr (svalues s)"
| "promote_to_sequence len (OScalar c) = Arr (replicate len c)"

fun raw_operand :: "operand \<Rightarrow> nd" where
  "raw_operand (OScalar c) = Sc c"
| "raw_operand (OColumn s) = Arr (svalues s)"

text \<open>
  \<open>compute_row_reduction\<close>. The reduction \<open>func\<close> (\<open>np.maximum.reduce\<close>,
  \<open>np.minimum.reduce\<close> or \<open>coalesce\<close>) and the final \<open>dd.Series(raw).squeeze()\<close> are
  parameters. Unpacking \<open>(final_size,) = final_sizes\<close> raises \<open>ValueError\<close> when
  the set has more than one element.
\<close>

definition compute_row_reduction ::
  "(nd list \<Rightarrow> error + nd) \<Rightarrow> (nd \<Rightarrow> error + nd) \<Rightarrow> operand list \<Rightarrow> error + nd" where
  "compute_row_reduction func series_squeeze value =
    (case final_sizes value of
       [] \<Rightarrow> func (map raw_operand value)
     | [final_size] \<Rightarrow>
         bind (func (map (promote_to_sequence final_size) value)) series_squeeze
     | _ \<Rightarrow> Inl (ValueError ''too many values to unpack (expected 1)''))"

definition is_array :: "operand \<Rightarrow> bool" where
  "is_array x = (case x of OColumn s \<Rightarrow> True | OScalar c \<Rightarrow> False)"

definition is_str :: "operand \<Rightarrow> bool" where
  "is_str x = (case x of OScalar (CStr s) \<Rightarrow> True | _ \<Rightarrow> False)"

section \<open>Tables\<close>

text \<open>
  A frame of the engine is a sequence of partitions over the same columns; a
  partition is a block of rows, its index and its columns, each column a list
  of cells as long as the index.
\<close>

record partition =
  pindex :: "cell list"
  pcolumns :: "(string \<times> cell list) list"

record frame =
  fcolumns :: "string list"
  partitions :: "partition list"

text \<open>Applying a function that may fail to every element, in order.\<close>

fun map_result :: "('a \<Rightarrow> error + 'b) \<Rightarrow> 'a list \<Rightarrow> error + 'b list" where
  "map_result f [] = Inr []"
| "map_result f (x # xs) = bind (f x) (\<lambda>y. bind (map_result f xs) (\<lambda>ys. Inr (y # ys)))"

text \<open>
  \<open>Series.between(left, right)\<close> is \<open>(s >= left) & (s <= right)\<close>: both bounds are
  included. The points in time are integers; a missing time compares false,
  and the comparison of any other cells is a type error.
\<close>

fun le_cell :: "cell \<Rightarrow> cell \<Rightarrow> error + bool" where
  "le_cell (CInt a) (CInt b) = Inr (a \<le> b)"
| "le_cell CNull c = Inr False"
| "le_cell c CNull = Inr False"
| "le_cell a b = Inl (TypeError ''<= not supported between instances'')"

definition between :: "cell list \<Rightarrow> cell \<Rightarrow> cell \<Rightarrow> error + bool list" where
  "between xs left right =
    map_result (\<lambda>t. bind (le_cell left t) (\<lambda>ge. bind (le_cell t right) (\<lambda>le. Inr (ge \<and> le)))) xs"

text \<open>
  \<open>df.loc[flags]\<close> with a boolean column keeps the rows whose flag is true, in
  every partition, and \<open>reset_index(drop=True)\<close> replaces the index of each
  partition by the integers counting from 0.
\<close>

definition select :: "bool list \<Rightarrow> 'a list \<Rightarrow> 'a list" where
  "select flags xs = map snd (filter fst (zip flags xs))"

definition loc_partition :: "bool list \<Rightarrow> partition \<Rightarrow> partition" where
  "loc_partition flags p =
    \<lparr>pindex = select flags (pindex p),
     pcolumns = map (\<lambda>(name, xs). (name, select flags xs)) (pcolumns p)\<rparr>"

definition reset_index_drop :: "partition \<Rightarrow> partition" where
  "reset_index_drop p = p\<lparr>pindex := map (\<lambda>i. CInt (int i)) [0..<length (pindex p)]\<rparr>"

definition filter_partition :: "string \<Rightarrow> cell \<Rightarrow> cell \<Rightarrow> partition \<Rightarrow> error + partition" where
  "filter_partition TIME_COL begin_t end_t p =
    (case map_of (pcolumns p) TIME_COL of
       None \<Rightarrow> Inl (KeyError TIME_COL)
     | Some tvals \<Rightarrow>
         bind (between tvals begin_t end_t)
           (\<lambda>flags. Inr (reset_index_drop (loc_partition flags p))))"

text \<open>
  \<open>execute_database_table_client\<close>. The client holds the tables by name, and
  \<open>TIME_COL\<close> is a constant of \<^verbatim>\<open>ibis.expr.timecontext\<close>, which is not among the
  source files: it is a parameter. A time context is \<open>None\<close> or a pair
  \<open>(begin, end)\<close>.
\<close>

record client =
  dictionary :: "(string \<times> frame) list"

definition execute_database_table_client ::
  "string \<Rightarrow> string \<Rightarrow> client \<Rightarrow> (cell \<times> cell) option \<Rightarrow> error + frame" where
  "execute_database_table_client TIME_COL name client timecontext =
    (case dict_get (dictionary client) name of
       None \<Rightarrow> Inl (KeyError name)
     | Some df \<Rightarrow>
         (case timecontext of
            None \<Rightarrow> Inr df
          | Some (begin_t, end_t) \<Rightarrow>
              if TIME_COL \<notin> set (fcolumns df) then
                Inl (IbisError (''Table '' @ name @ '' must have a time column named ''
                  @ TIME_COL @ '' to execute with time context.''))
              else
                bind (map_result (filter_partition TIME_COL begin_t end_t) (partitions df))
                  (\<lambda>ps. Inr (df\<lparr>partitions := ps\<rparr>))))"

text \<open>
  The rows of a partition whose time \<open>t\<close> satisfies \<open>b \<le> t \<le> e\<close>, under a fresh
  index, given the times \<open>tvals\<close> of its rows; and the times of a partition, when
  its time column holds integers only.
\<close>

definition rows_between :: "int \<Rightarrow> int \<Rightarrow> int list \<Rightarrow> partition \<Rightarrow> partition" where
  "rows_between b e tvals p =
    \<lparr>pindex = map (\<lambda>i. CInt (int i)) [0..<length (filter (\<lambda>t. b \<le> t \<and> t \<le> e) tvals)],
     pcolumns = map (\<lambda>(name, xs). (name, select (map (\<lambda>t. b \<le> t \<and> t \<le> e) tvals) xs))
                  (pcolumns p)\<rparr>"

definition time_values :: "string \<Rightarrow> partition \<Rightarrow> int list option" where
  "time_values TIME_COL p =
    (case map_of (pcolumns p) TIME_COL of
       None \<Rightarrow> None
     | Some cells \<Rightarrow>
         those (map (\<lambda>c. case c of CInt t \<Rightarrow> Some t | _ \<Rightarrow> None) cells))"

section \<open>Aggregation\<close>

text \<open>
  The evaluation of a sub-expression returns a scalar or a column. The source of
  the metrics is the (filtered) table, or that table grouped by its keys.
\<close>

datatype "value" = Scalar cell | Col series

datatype source = Ungrouped frame | Grouped frame "grouping list"

text \<open>
  An Aggregation node: its table, metrics, grouping keys (\<open>op.by\<close>), having
  clauses, predicates and sort keys, each an expression.
\<close>

record 'e aggregation =
  table :: 'e
  metrics :: "'e list"
  by_keys :: "'e list"
  having :: "'e list"
  predicates :: "'e list"
  sort_keys :: "'e list"

text \<open>
  What the function takes from outside \<^verbatim>\<open>generic.py\<close>: the recursive evaluator
  \<open>execute\<close> of \<^verbatim>\<open>ibis.dask.core\<close>; what an expression says about itself
  (\<open>table_column_name by\<close> is \<open>by.op().name\<close> when \<open>by.op()\<close> is a \<open>TableColumn\<close>,
  \<open>op_name by\<close> is \<open>by.op().name\<close> when the operation has a name, \<open>get_name\<close> may
  raise for an unnamed expression); the scopes of \<^verbatim>\<open>ibis.expr.scope\<close>; and the
  kernels of the engine: \<open>rename\<close>, setting the name of a piece, \<open>dd.concat\<close> along
  axis 1, \<open>reset_index\<close>, and the cases of \<open>&\<close> and \<open>.loc\<close> that are not spelled out
  below.
\<close>

record ('e, 's, 't) engine =
  execute :: "'e \<Rightarrow> 's \<Rightarrow> 't \<Rightarrow> error + value"
  table_column_name :: "'e \<Rightarrow> string option"
  op_name :: "'e \<Rightarrow> string option"
  get_name :: "'e \<Rightarrow> error + string"
  make_scope :: "'e \<Rightarrow> source \<Rightarrow> 't \<Rightarrow> 's"
  merge_scope :: "'s \<Rightarrow> 's \<Rightarrow> 's"
  and_kernel :: "value \<Rightarrow> value \<Rightarrow> error + value"
  loc_kernel :: "frame \<Rightarrow> value \<Rightarrow> error + frame"
  loc_array_kernel :: "frame \<Rightarrow> cell list \<Rightarrow> error + frame"
  rename :: "value \<Rightarrow> string \<Rightarrow> error + series"
  set_name :: "value \<Rightarrow> string \<Rightarrow> error + value"
  concat_pieces :: "value list \<Rightarrow> error + frame"
  reset_index :: "frame \<Rightarrow> error + frame"

text \<open>The booleans of a list of cells, when every cell is a boolean.\<close>

definition bool_cells :: "cell list \<Rightarrow> bool list option" where
  "bool_cells cs = those (map (\<lambda>c. case c of CBool b \<Rightarrow> Some b | _ \<Rightarrow> None) cs)"

text \<open>\<open>len(frame)\<close>, and the index of a frame across its partitions.\<close>

definition nrows :: "frame \<Rightarrow> nat" where
  "nrows f = sum_list (map (\<lambda>p. length (pindex p)) (partitions f))"

definition frame_index :: "frame \<Rightarrow> cell list" where
  "frame_index f = concat (map pindex (partitions f))"

text \<open>
  Selecting rows by a list of flags, one per row of the frame: each partition
  takes as many flags as it has rows.
\<close>

fun loc_flags :: "bool list \<Rightarrow> partition list \<Rightarrow> partition list" where
  "loc_flags flags [] = []"
| "loc_flags flags (p # ps) =
     loc_partition (take (length (pindex p)) flags) p
     # loc_flags (drop (length (pindex p)) flags) ps"

text \<open>
  \<open>operator.and_\<close>: for two boolean columns over the same index it is the
  element-wise conjunction, named as the operands when they agree.
\<close>

definition and_op :: "('e, 's, 't) engine \<Rightarrow> value \<Rightarrow> value \<Rightarrow> error + value" where
  "and_op E x y =
    (case (x, y) of
       (Col a, Col b) \<Rightarrow>
         (case (bool_cells (svalues a), bool_cells (svalues b)) of
            (Some xs, Some ys) \<Rightarrow>
              if sindex a = sindex b \<and> length xs = length ys then
                Inr (Col (a\<lparr>sname := (if sname a = sname b then sname a else []),
                            svalues := map CBool (map2 (\<and>) xs ys)\<rparr>))
              else and_kernel E x y
          | _ \<Rightarrow> and_kernel E x y)
     | _ \<Rightarrow> and_kernel E x y)"

text \<open>
  \<open>data.loc[predicate]\<close> with a boolean column over the index of the frame keeps
  the rows whose flag is true.
\<close>

definition loc :: "('e, 's, 't) engine \<Rightarrow> frame \<Rightarrow> value \<Rightarrow> error + frame" where
  "loc E data predicate =
    (case predicate of
       Col p \<Rightarrow>
         (case bool_cells (svalues p) of
            Some flags \<Rightarrow>
              if sindex p = frame_index data \<and> length flags = nrows data then
                Inr (data\<lparr>partitions := loc_flags flags (partitions data)\<rparr>)
              else loc_kernel E data predicate
          | None \<Rightarrow> loc_kernel E data predicate)
     | _ \<Rightarrow> loc_kernel E data predicate)"

text \<open>\<open>len(predicate)\<close> and \<open>predicate.values\<close>.\<close>

fun len :: "value \<Rightarrow> error + nat" where
  "len (Col s) = Inr (length (svalues s))"
| "len (Scalar (CStr s)) = Inr (length s)"
| "len (Scalar c) = Inl (TypeError ''object has no len()'')"

fun values_of :: "value \<Rightarrow> error + cell list" where
  "values_of (Col s) = Inr (svalues s)"
| "values_of (Scalar c) = Inl (AttributeError ''values'')"

text \<open>\<open>result.loc[array]\<close> with an array of booleans, one per row.\<close>

definition loc_array :: "('e, 's, 't) engine \<Rightarrow> frame \<Rightarrow> cell list \<Rightarrow> error + frame" where
  "loc_array E result cells =
    (case bool_cells cells of
       Some flags \<Rightarrow>
         if length flags = nrows result then
           Inr (result\<lparr>partitions := loc_flags flags (partitions result)\<rparr>)
         else loc_array_kernel E result cells
     | None \<Rightarrow> loc_array_kernel E result cells)"

text \<open>
  \<open>functools.reduce(operator.and_, (execute(p, ...) for p in exprs))\<close>: the
  generator is consumed one element at a time, so each expression is evaluated
  just before it is combined.
\<close>

fun reduce_and_from ::
  "('e, 's, 't) engine \<Rightarrow> value \<Rightarrow> 'e list \<Rightarrow> 's \<Rightarrow> 't \<Rightarrow> error + value" where
  "reduce_and_from E acc [] scope timecontext = Inr acc"
| "reduce_and_from E acc (p # ps) scope timecontext =
     bind (execute E p scope timecontext) (\<lambda>x.
     bind (and_op E acc x) (\<lambda>acc'.
       reduce_and_from E acc' ps scope timecontext))"

definition reduce_and ::
  "('e, 's, 't) engine \<Rightarrow> 'e list \<Rightarrow> 's \<Rightarrow> 't \<Rightarrow> error + value" where
  "reduce_and E exprs scope timecontext =
    (case exprs of
       [] \<Rightarrow> Inl (TypeError ''reduce() of empty sequence with no initial value'')
     | p # ps \<Rightarrow>
         bind (execute E p scope timecontext) (\<lambda>x.
           reduce_and_from E x ps scope timecontext))"

text \<open>
  One grouping key: the name of a table column, or the evaluated expression
  renamed; and one entry of the dict \<open>columns\<close>.
\<close>

definition grouping_key ::
  "('e, 's, 't) engine \<Rightarrow> 's \<Rightarrow> 't \<Rightarrow> 'e \<Rightarrow> error + grouping" where
  "grouping_key E scope timecontext by_expr =
    (case table_column_name E by_expr of
       Some name \<Rightarrow> Inr (by_name name)
     | None \<Rightarrow>
         bind (execute E by_expr scope timecontext) (\<lambda>v.
         bind (get_name E by_expr) (\<lambda>n.
         bind (rename E v n) (\<lambda>s. Inr (by_series s)))))"

definition column_pair :: "('e, 's, 't) engine \<Rightarrow> 'e \<Rightarrow> error + (string \<times> string)" where
  "column_pair E by_expr =
    bind (get_name E by_expr) (\<lambda>n. Inr (the (op_name E by_expr), n))"

text \<open>\<open>result.columns = [columns.get(c, c) for c in result.columns]\<close>.\<close>

definition rename_columns :: "(string \<times> string) list \<Rightarrow> frame \<Rightarrow> frame" where
  "rename_columns columns result =
    (let new_name = (\<lambda>c. case dict_get columns c of Some n \<Rightarrow> n | None \<Rightarrow> c) in
     \<lparr>fcolumns = map new_name (fcolumns result),
      partitions =
        map (\<lambda>p. p\<lparr>pcolumns := map (\<lambda>(c, xs). (new_name c, xs)) (pcolumns p)\<rparr>)
          (partitions result)\<rparr>)"

text \<open>One turn of the loop over \<open>op.metrics\<close>.\<close>

definition metric_piece ::
  "('e, 's, 't) engine \<Rightarrow> 's \<Rightarrow> 't \<Rightarrow> 'e \<Rightarrow> error + value" where
  "metric_piece E scope timecontext metric =
    bind (execute E metric scope timecontext) (\<lambda>piece.
    bind (get_name E metric) (\<lambda>n. set_name E piece n))"

text \<open>
  \<open>execute_aggregation_dataframe\<close>, in two parts. \<open>aggregate\<close> is the function up
  to the renaming of the columns: it returns the result so far and the merged
  scope. The second part is the having filter.
\<close>

definition aggregate ::
  "('e, 's, 't) engine \<Rightarrow> 'e aggregation \<Rightarrow> frame \<Rightarrow> 's \<Rightarrow> 't \<Rightarrow> error + (frame \<times> 's)" where
  "aggregate E op data scope timecontext =
    (if metrics op = [] then
       Inl (AssertionError ''no metrics found during aggregation execution'')
     else if sort_keys op \<noteq> [] then
       Inl (NotImplementedError ''sorting on aggregations not yet implemented'')
     else
       bind (if predicates op = [] then Inr data
             else bind (reduce_and E (predicates op) scope timecontext) (loc E data))
         (\<lambda>data.
       bind (if by_keys op = [] then Inr (Ungrouped data, [])
             else
               bind (map_result (grouping_key E scope timecontext) (by_keys op))
                 (\<lambda>grouping_keys.
               bind (map_result (column_pair E)
                       (filter (\<lambda>b. op_name E b \<noteq> None) (by_keys op)))
                 (\<lambda>columns. Inr (Grouped data grouping_keys, columns))))
         (\<lambda>(source, columns).
       let scope' = merge_scope E scope (make_scope E (table op) source timecontext) in
       bind (map_result (metric_piece E scope' timecontext) (metrics op)) (\<lambda>pieces.
       bind (concat_pieces E pieces) (\<lambda>result.
       bind (if by_keys op = [] then Inr result else reset_index E result) (\<lambda>result.
         Inr (rename_columns columns result, scope')))))))"

definition execute_aggregation_dataframe ::
  "('e, 's, 't) engine \<Rightarrow> 'e aggregation \<Rightarrow> frame \<Rightarrow> 's \<Rightarrow> 't \<Rightarrow> error + frame" where
  "execute_aggregation_dataframe E op data scope timecontext =
    bind (aggregate E op data scope timecontext) (\<lambda>(result, scope').
      if having op = [] then Inr result
      else if by_keys op = [] then
        Inl (ValueError (''Filtering out aggregation values is not allowed without at ''
               @ ''least one grouping key''))
      else
        bind (reduce_and E (having op) scope' timecontext) (\<lambda>predicate.
        bind (len predicate) (\<lambda>n.
          if n \<noteq> nrows result then
            Inl (AssertionError ''length of predicate does not match length of DataFrame'')
          else bind (values_of predicate) (loc_array E result))))"

section \<open>An instance of the scalar class tuples\<close>

text \<open>
  A concrete choice of the parameters, used to instantiate the theorems: the
  integer classes are \<open>np.integer\<close> and \<open>int\<close>, floating point numbers are
  \<open>numbers.Real\<close>, booleans are \<open>bool\<close> and \<open>np.bool_\<close>, the temporal classes are
  those of \<open>datetime\<close> and pandas.
\<close>

definition dask_core :: core_types where
  "dask_core =
    \<lparr>boolean_types = [py_bool, np_bool],
     integer_types = [np_integer, py_int],
     fixed_width_types = [np_integer, py_int, numbers_Real, py_bool, np_bool],
     scalar_types =
       [np_integer, py_int, numbers_Real, py_bool, np_bool,
        datetime_date, datetime_time, pd_Timestamp, datetime_datetime,
        pd_Timedelta, datetime_timedelta],
     timedelta_types = [pd_Timedelta, datetime_timedelta]\<rparr>"

text \<open>
  An instance of the conversions, over the floating point numbers that are whole:
  they are represented by integers, and no string is parsed.
\<close>

definition whole_builtins :: "int builtins" where
  "whole_builtins =
    \<lparr>float_trunc = Inr,
     float_is_zero = (\<lambda>f. f = 0),
     float_of_int = Inr,
     float_of_str = (\<lambda>s. Inl (ValueError ''could not convert string to float'')),
     int_of_str = (\<lambda>s. Inl (ValueError ''invalid literal for int() with base 10'')),
     Timedelta = (\<lambda>v u. Inl (ValueError ''Timedelta''))\<rparr>"

text \<open>
  An instance of the kernels in which none is available (each one raises), and
  an instance of the type table with the 64-bit integers, the 64-bit floating
  point numbers and the booleans.
\<close>

definition no_kernels :: kernels where
  "no_kernels =
    \<lparr>convert = (\<lambda>s d. Inl (NotImplementedError ''astype'')),
     to_datetime = (\<lambda>s. Inl (NotImplementedError ''to_datetime'')),
     to_datetime_days = (\<lambda>s. Inl (NotImplementedError ''to_datetime'')),
     tz_convert = (\<lambda>s tz. Inl (NotImplementedError ''tz_convert'')),
     tz_localize = (\<lambda>s tz. Inl (NotImplementedError ''tz_localize'')),
     normalize = (\<lambda>s. Inl (NotImplementedError ''normalize'')),
     map_numpy_type = (\<lambda>s d. Inl (NotImplementedError ''map''))\<rparr>"

definition small_table :: constants where
  "small_table =
    \<lparr>IBIS_TYPE_TO_DASK_TYPE =
       [(Int64, dtype_int64), (Float64, dtype_float64), (Boolean, dtype_bool)]\<rparr>"

definition int64_column :: series where
  "int64_column =
    \<lparr>sname = ''v'', sindex = [CInt 0, CInt 1], svalues = [CInt 7, CInt 8],
     sdtype = dtype_int64\<rparr>"

text \<open>An instance of the kernels on points in time in which none is available.\<close>

definition no_point_kernels :: point_kernels where
  "no_point_kernels =
    \<lparr>point_tz_localize = (\<lambda>p tz. Inl (NotImplementedError ''tz_localize'')),
     point_tz_convert = (\<lambda>p tz. Inl (NotImplementedError ''tz_convert''))\<rparr>"

text \<open>A table of one partition with rows at the times 10, 20 and 30.\<close>

definition example_table :: frame where
  "example_table =
    \<lparr>fcolumns = [''time'', ''v''],
     partitions =
       [\<lparr>pindex = [CInt 0, CInt 1, CInt 2],
         pcolumns = [(''time'', [CInt 10, CInt 20, CInt 30]),
                     (''v'', [CStr ''a'', CStr ''b'', CStr ''c''])]\<rparr>]\<rparr>"

text \<open>
  An instance of the engine: the expressions are numbers; 0 evaluates to the
  boolean column \<open>[True, False]\<close> and every other number \<open>e\<close> to the column
  \<open>[e, e]\<close>; expression 1 is the table column \<open>k\<close>; the pieces are put side by
  side in a frame of two rows. And a table of two rows.
\<close>

definition toy_engine :: "(nat, unit, unit) engine" where
  "toy_engine =
    \<lparr>execute = (\<lambda>e scope timecontext.
       if e = 0 then
         Inr (Col \<lparr>sname = ''p'', sindex = [CInt 0, CInt 1],
                   svalues = [CBool True, CBool False], sdtype = dtype_bool\<rparr>)
       else
         Inr (Col \<lparr>sname = ''e'', sindex = [CInt 0, CInt 1],
                   svalues = [CInt (int e), CInt (int e)], sdtype = dtype_int64\<rparr>)),
     table_column_name = (\<lambda>e. if e = 1 then Some ''k'' else None),
     op_name = (\<lambda>e. if e = 1 then Some ''k'' else None),
     get_name = (\<lambda>e. Inr (if e = 1 then ''k'' else ''m'')),
     make_scope = (\<lambda>e source timecontext. ()),
     merge_scope = (\<lambda>a b. ()),
     and_kernel = (\<lambda>x y. Inl (TypeError ''and'')),
     loc_kernel = (\<lambda>f v. Inl (KeyError ''loc'')),
     loc_array_kernel = (\<lambda>f cells. Inl (KeyError ''loc'')),
     rename = (\<lambda>v n. Inl (AttributeError ''rename'')),
     set_name = (\<lambda>v n. Inr (case v of Col s \<Rightarrow> Col (s\<lparr>sname := n\<rparr>) | Scalar c \<Rightarrow> Scalar c)),
     concat_pieces = (\<lambda>pieces.
       Inr \<lparr>fcolumns = map (\<lambda>v. case v of Col s \<Rightarrow> sname s | Scalar c \<Rightarrow> []) pieces,
            partitions =
              [\<lparr>pindex = [CInt 0, CInt 1],
                pcolumns = map (\<lambda>v. case v of Col s \<Rightarrow> (sname s, svalues s)
                                      | Scalar c \<Rightarrow> ([], [c, c])) pieces\<rparr>]\<rparr>),
     reset_index = Inr\<rparr>"

definition two_rows :: frame where
  "two_rows =
    \<lparr>fcolumns = [''k''],
     partitions = [\<lparr>pindex = [CInt 0, CInt 1], pcolumns = [(''k'', [CStr ''a'', CStr ''b''])]\<rparr>]\<rparr>"

text \<open>
  An instance of the timezone database with two zones: \<open>UTC\<close>, also known by the
  name \<open>utc\<close>, and \<open>Europe/Paris\<close>.
\<close>

definition two_zones :: tzdb where
  "two_zones = map_of
     [(''UTC'', ''UTC''), (''utc'', ''UTC''), (''Europe/Paris'', ''Europe/Paris'')]"

section \<open>Properties\<close>

subsection \<open>Type coercion\<close>

lemmas roundtrip_defs =
  logical_roundtrip_def bind_def ibis_dtype_to_dask_def dt_dtype_def
  from_numpy_dtype_def dict_get_def ibis_dtypes_def numpy_dtypes_def
  np_dtype_timedelta64_def numpy_time_units_def new_DatetimeTZDtype_def

lemma roundtrip_Interval:
  "logical_roundtrip Z (Interval u) = Inr (Interval u) \<longleftrightarrow> u = ''ns''"
  by (auto simp add: roundtrip_defs split: option.splits)

lemma roundtrip_Timestamp:
  "logical_roundtrip Z (Timestamp tz) = Inr (Timestamp tz) \<longleftrightarrow>
     tz = None \<or> (\<exists>name. tz = Some name \<and> name \<noteq> [] \<and> Z name = Some name)"
  by (cases tz) (auto simp add: roundtrip_defs split: option.splits)

text \<open>
  C4, as stated: for every primitive logical type \<open>T\<close>, mapping \<open>T\<close> to its native
  type and back yields \<open>T\<close>. The date type is a counterexample: its native type
  is \<open>datetime64[ns]\<close>, which maps back to the timestamp type.
\<close>

theorem C4_roundtrip_date_counterexample:
  "logical_roundtrip two_zones Date = Inr (Timestamp None)
   \<and> logical_roundtrip two_zones Date \<noteq> Inr Date"
  by (simp add: roundtrip_defs)

text \<open>
  C4, amended: mapping a logical type to its native type and back yields the same
  logical type exactly for boolean, the signed and unsigned integers of width 8
  to 64, float32, float64, category, the interval of unit \<open>ns\<close>, the timestamp
  type without a timezone, and a timestamp type whose timezone is the canonical
  name of a zone the timezone database knows. For every other logical type the
  result is a different type or an error: among them date, time, string, binary,
  null and float16, and a timestamp whose zone name is empty, is not canonical
  (it comes back as the canonical one) or is unknown (the native type cannot be
  built).
\<close>

theorem C4_roundtrip:
  "logical_roundtrip Z t = Inr t \<longleftrightarrow>
     t \<in> {Boolean, Int8, Int16, Int32, Int64, UInt8, UInt16, UInt32, UInt64,
          Float32, Float64, Interval ''ns'', Category, Timestamp None}
     \<or> (\<exists>name. t = Timestamp (Some name) \<and> name \<noteq> [] \<and> Z name = Some name)"
proof (cases t)
  case (Timestamp tz)
  then show ?thesis using roundtrip_Timestamp [of Z tz] by auto
next
  case (Interval u)
  then show ?thesis using roundtrip_Interval [of Z u] by auto
qed (simp_all add: roundtrip_defs)

theorem C4_roundtrip_witness:
  "logical_roundtrip two_zones Int64 = Inr Int64
   \<and> logical_roundtrip two_zones String \<noteq> Inr String
   \<and> logical_roundtrip two_zones (Timestamp (Some ''UTC'')) = Inr (Timestamp (Some ''UTC''))
   \<and> logical_roundtrip two_zones (Timestamp (Some ''utc'')) \<noteq> Inr (Timestamp (Some ''utc''))
   \<and> logical_roundtrip two_zones (Timestamp (Some ''Not/AZone''))
        \<noteq> Inr (Timestamp (Some ''Not/AZone''))"
  using C4_roundtrip [of two_zones Int64] C4_roundtrip [of two_zones String]
    C4_roundtrip [of two_zones "Timestamp (Some ''UTC'')"]
    C4_roundtrip [of two_zones "Timestamp (Some ''utc'')"]
    C4_roundtrip [of two_zones "Timestamp (Some ''Not/AZone'')"]
  by (simp add: two_zones_def)

lemma roundtrip_zone_names:
  "logical_roundtrip two_zones (Timestamp (Some ''utc'')) = Inr (Timestamp (Some ''UTC''))
   \<and> logical_roundtrip two_zones (Timestamp (Some ''Not/AZone'')) = Inl (KeyError ''Not/AZone'')"
  by (simp add: roundtrip_defs two_zones_def)

subsection \<open>Dispatch resolution\<close>

lemma issubclass_refl: "issubclass c c"
  by (simp add: issubclass_def)

lemma issubclass_DataType: "issubclass (type_of t) dt_DataType"
  by (cases t) (simp_all add: issubclass_def)

lemma issubclass_SeriesGroupBy:
  "issubclass SeriesGroupBy c \<longleftrightarrow> c = SeriesGroupBy \<or> c = py_object"
  by (auto simp add: issubclass_def)

lemma issubclass_py_bool: "issubclass c py_bool \<longleftrightarrow> c = py_bool"
  by (cases c) (simp_all add: issubclass_def)

lemma issubclass_np_bool: "issubclass c np_bool \<longleftrightarrow> c = np_bool"
  by (cases c) (simp_all add: issubclass_def)

lemma expand3: "expand [[a], cs, [d]] = map (\<lambda>c. [a, c, d]) cs"
  by (induction cs) simp_all

lemma set_expand:
  "set (expand tss) = {s. list_all2 (\<lambda>x ts. x \<in> set ts) s tss}"
proof (induction tss)
  case Nil
  show ?case by auto
next
  case (Cons ts tss)
  show ?case
    by (auto simp add: Cons list_all2_Cons2)
qed

lemma matching_Nil: "matching [] tys = []"
  by (simp add: matching_def)

lemma matching_register:
  "matching (register types h reg) tys =
     matching reg tys @ map (\<lambda>s. (s, h)) (filter (supercedes tys) (expand types))"
  by (simp add: matching_def register_def filter_map comp_def)

lemma supercedes3:
  "supercedes [a, b, c] [a', b', c'] \<longleftrightarrow>
     issubclass a a' \<and> issubclass b b' \<and> issubclass c c'"
  by (simp add: supercedes_def)

lemma filter_expand3:
  "filter (supercedes [a, b, c]) (expand [[a'], cs, [c']]) =
     (if issubclass a a' \<and> issubclass c c'
      then map (\<lambda>x. [a', x, c']) (filter (issubclass b) cs) else [])"
  by (induction cs) (auto simp add: expand3 supercedes3)

lemma matching_register3:
  "matching (register [[a'], cs, [c']] h reg) [a, b, c] =
     matching reg [a, b, c] @
     (if issubclass a a' \<and> issubclass c c'
      then map (\<lambda>x. ([a', x, c'], h)) (filter (issubclass b) cs) else [])"
  by (simp add: matching_register filter_expand3 del: expand.simps)

lemma fold_more_specific_keep:
  "\<forall>d \<in> set cs. \<not> supercedes (fst d) (fst c) \<Longrightarrow> fold more_specific cs c = c"
  by (induction cs) (simp_all add: more_specific_def)

subsection \<open>Cast of a grouped series\<close>

lemma grouped_matching:
  assumes "\<forall>c \<in> set (integer_types ct @ fixed_width_types ct). \<not> issubclass SeriesGroupBy c"
  shows "matching (cast_registry ct) [ops_Cast, SeriesGroupBy, type_of t] =
           [([ops_Cast, SeriesGroupBy, dt_DataType], h_execute_cast_series_group_by)]"
proof -
  have 1: "filter (issubclass SeriesGroupBy) (integer_types ct) = []"
    using assms by (auto simp: filter_empty_conv)
  have 2: "filter (issubclass SeriesGroupBy) (fixed_width_types ct) = []"
    using assms by (auto simp: filter_empty_conv)
  show ?thesis
    unfolding cast_registry_def
    by (simp add: matching_register3 matching_Nil 1 2 issubclass_DataType
          issubclass_SeriesGroupBy issubclass_refl)
qed

text \<open>
  C1: with the generic implementation registered for \<open>(Cast, Series, DataType)\<close>
  and the grouped one for \<open>(Cast, SeriesGroupBy, DataType)\<close>, resolution for a
  grouped series operand selects the grouped implementation for every target
  logical type \<open>t\<close>: it is the only registration that matches at all, so the
  choice does not depend on any ordering. The grouped implementation, however,
  never returns a re-grouped series: it casts the underlying series with the
  generic implementation, and when that succeeds it fails with \<open>AttributeError\<close>
  on \<open>data.grouper\<close>. (No class of the scalar tuples is a superclass of the
  grouped series class.)
\<close>

theorem C1_grouped_cast_dispatch:
  assumes "\<forall>c \<in> set (integer_types ct @ fixed_width_types ct). \<not> issubclass SeriesGroupBy c"
  shows "resolve (cast_registry ct) [ops_Cast, SeriesGroupBy, type_of t]
           = Inr h_execute_cast_series_group_by
       \<and> (\<forall>e \<in> set (matching (cast_registry ct) [ops_Cast, SeriesGroupBy, type_of t]).
            snd e = h_execute_cast_series_group_by)
       \<and> (\<forall>r. execute_cast_series_group_by C K op data t \<noteq> Inr r)
       \<and> (\<forall>result. execute_cast_series_generic C K op (obj data) t = Inr result \<longrightarrow>
            execute_cast_series_group_by C K op data t
              = Inl (AttributeError (apostrophe @ ''SeriesGroupBy'' @ apostrophe
                  @ '' object has no attribute '' @ apostrophe @ ''grouper'' @ apostrophe)))"
proof -
  have "\<forall>r. execute_cast_series_group_by C K op data t \<noteq> Inr r"
    by (cases "execute_cast_series_generic C K op (obj data) t")
      (simp_all add: execute_cast_series_group_by_def bind_def grouper_groupings_def)
  then show ?thesis
    by (simp add: resolve_def grouped_matching [OF assms]
          execute_cast_series_group_by_def bind_def grouper_groupings_def)
qed

theorem C1_grouped_cast_dispatch_witness:
  "resolve (cast_registry dask_core) [ops_Cast, SeriesGroupBy, type_of Int64]
     = Inr h_execute_cast_series_group_by
   \<and> execute_cast_series_generic small_table no_kernels
        \<lparr>arg_type = Int64, to_type = Int64\<rparr> int64_column Int64 = Inr int64_column
   \<and> execute_cast_series_group_by small_table no_kernels
        \<lparr>arg_type = Int64, to_type = Int64\<rparr>
        \<lparr>obj = int64_column, group_keys = [by_name ''k'']\<rparr> Int64
      = Inl (AttributeError (apostrophe @ ''SeriesGroupBy'' @ apostrophe
          @ '' object has no attribute '' @ apostrophe @ ''grouper'' @ apostrophe))"
proof -
  have h: "\<forall>c \<in> set (integer_types dask_core @ fixed_width_types dask_core).
      \<not> issubclass SeriesGroupBy c"
    by (simp add: dask_core_def issubclass_SeriesGroupBy)
  have g: "execute_cast_series_generic small_table no_kernels
        \<lparr>arg_type = Int64, to_type = Int64\<rparr> int64_column Int64 = Inr int64_column"
    by (simp add: execute_cast_series_generic_def small_table_def dict_get_def astype_def
          int64_column_def)
  from C1_grouped_cast_dispatch [OF h, of Int64 small_table no_kernels
      "\<lparr>arg_type = Int64, to_type = Int64\<rparr>"
      "\<lparr>obj = int64_column, group_keys = [by_name ''k'']\<rparr>"] g
  show ?thesis by simp
qed

subsection \<open>Cast of a boolean to a timestamp or an interval\<close>

lemma bool_to_timestamp_resolve:
  assumes "py_bool \<notin> set (integer_types ct)" "np_bool \<notin> set (integer_types ct)"
    and "b = py_bool \<or> b = np_bool"
  shows "resolve (cast_registry ct) [ops_Cast, b, type_of (Timestamp tz)]
           = Inr h_execute_cast_bool_to_timestamp"
proof -
  let ?c = "([ops_Cast, b, dt_Timestamp], h_execute_cast_bool_to_timestamp)"
  let ?A = "map (\<lambda>x. ([ops_Cast, x, dt_Timestamp], h_execute_cast_simple_literal_to_timestamp))
          (filter (issubclass b) (integer_types ct))"
  let ?B = "map (\<lambda>x. ([ops_Cast, x, dt_DataType], h_execute_cast_string_literal))
          (filter (issubclass b) (fixed_width_types ct))"
  have m: "matching (cast_registry ct) [ops_Cast, b, dt_Timestamp] = ?c # (?A @ ?B)"
    using assms(3) unfolding cast_registry_def
    by (auto simp add: matching_register3 matching_Nil issubclass_def)
  have sub: "issubclass x b \<longleftrightarrow> x = b" for x
    using assms(3) by (auto simp add: issubclass_py_bool issubclass_np_bool)
  have "fold more_specific (?A @ ?B) ?c = ?c"
    using assms
    by (intro fold_more_specific_keep) (auto simp add: supercedes3 sub issubclass_def)
  then show ?thesis
    by (simp add: resolve_def m del: fold_append)
qed

lemma bool_to_interval_resolve:
  assumes "b = py_bool \<or> b = np_bool"
  shows "resolve (cast_registry ct) [ops_Cast, b, type_of (Interval u)]
           = Inr h_execute_cast_bool_to_interval"
proof -
  let ?c = "([ops_Cast, b, dt_Interval], h_execute_cast_bool_to_interval)"
  let ?B = "map (\<lambda>x. ([ops_Cast, x, dt_DataType], h_execute_cast_string_literal))
          (filter (issubclass b) (fixed_width_types ct))"
  have m: "matching (cast_registry ct) [ops_Cast, b, dt_Interval] = ?c # ?B"
    using assms unfolding cast_registry_def
    by (auto simp add: matching_register3 matching_Nil issubclass_def)
  have "fold more_specific ?B ?c = ?c"
    by (intro fold_more_specific_keep) (auto simp add: supercedes3 issubclass_def)
  then show ?thesis
    by (simp add: resolve_def m)
qed

lemma bool_to_timestamp_message_int64:
  "\<exists>pre post. bool_to_timestamp_message = pre @ ''please cast to int64 first'' @ post"
  unfolding bool_to_timestamp_message_def
  by (rule exI [of _ "''Casting boolean values to timestamps does not make sense. If you really want to cast boolean values to timestamps ''"]) simp

lemma bool_to_interval_message_int64:
  "\<exists>pre post. bool_to_interval_message = pre @ ''please cast to int64 first'' @ post"
  unfolding bool_to_interval_message_def
  by (rule exI [of _ "''Casting boolean values to intervals does not make sense. If you really want to cast boolean values to intervals ''"]) simp

text \<open>
  C9: for every boolean value \<open>data\<close> (of class \<open>bool\<close> or \<open>np.bool_\<close>), a cast to
  a timestamp type resolves to \<open>execute_cast_bool_to_timestamp\<close> and a cast to an
  interval type to \<open>execute_cast_bool_to_interval\<close>; both fail with a
  \<open>TypeError\<close> whose message tells the caller to cast to int64 first, whatever the
  value, the timezone or the unit, and so never return a value. (The boolean
  classes are not listed among the integer classes.)
\<close>

theorem C9_bool_cast_rejected:
  assumes "py_bool \<notin> set (integer_types ct)" "np_bool \<notin> set (integer_types ct)"
    and "b = py_bool \<or> b = np_bool"
  shows "resolve (cast_registry ct) [ops_Cast, b, type_of (Timestamp tz)]
           = Inr h_execute_cast_bool_to_timestamp
       \<and> execute_cast_bool_to_timestamp op data (Timestamp tz)
           = Inl (TypeError bool_to_timestamp_message)
       \<and> (\<exists>pre post. bool_to_timestamp_message = pre @ ''please cast to int64 first'' @ post)
       \<and> resolve (cast_registry ct) [ops_Cast, b, type_of (Interval u)]
           = Inr h_execute_cast_bool_to_interval
       \<and> execute_cast_bool_to_interval op data (Interval u)
           = Inl (TypeError bool_to_interval_message)
       \<and> (\<exists>pre post. bool_to_interval_message = pre @ ''please cast to int64 first'' @ post)"
  using bool_to_timestamp_resolve [OF assms] bool_to_interval_resolve [OF assms(3)]
    bool_to_timestamp_message_int64 bool_to_interval_message_int64
  by (simp add: execute_cast_bool_to_timestamp_def execute_cast_bool_to_interval_def)

theorem C9_bool_cast_rejected_witness:
  "py_bool \<notin> set (integer_types dask_core) \<and> np_bool \<notin> set (integer_types dask_core)
   \<and> resolve (cast_registry dask_core) [ops_Cast, py_bool, type_of (Timestamp None)]
       = Inr h_execute_cast_bool_to_timestamp
   \<and> execute_cast_bool_to_timestamp \<lparr>arg_type = Boolean, to_type = Timestamp None\<rparr> True (Timestamp None)
       = Inl (TypeError bool_to_timestamp_message)
   \<and> resolve (cast_registry dask_core) [ops_Cast, py_bool, type_of (Interval ''s'')]
       = Inr h_execute_cast_bool_to_interval"
proof -
  have h1: "py_bool \<notin> set (integer_types dask_core)"
    and h2: "np_bool \<notin> set (integer_types dask_core)"
    by (simp_all add: dask_core_def)
  from C9_bool_cast_rejected [OF h1 h2, of py_bool None
      "\<lparr>arg_type = Boolean, to_type = Timestamp None\<rparr>" True "''s''"] h1 h2
  show ?thesis by simp
qed

subsection \<open>Literal nodes\<close>

lemma issubclass_object: "issubclass c py_object"
  by (cases c) (simp_all add: issubclass_def)

lemma matching_register2:
  "matching (register [[a'], [b']] h reg) [a, b, c] = matching reg [a, b, c]"
  by (simp add: matching_register supercedes_def)

lemma literal_matching:
  "matching (literal_registry ct) [ops_Literal, c, d] =
     (if issubclass d dt_DataType
      then [([ops_Literal, py_object, dt_DataType], h_execute_node_literal_value_datatype)] else [])
   @ (if issubclass d dt_Integer
      then [([ops_Literal, py_object, dt_Integer], h_execute_node_literal_any_integer_datatype)] else [])
   @ (if issubclass d dt_Boolean
      then [([ops_Literal, py_object, dt_Boolean], h_execute_node_literal_any_boolean_datatype)] else [])
   @ (if issubclass d dt_Floating
      then [([ops_Literal, py_object, dt_Floating], h_execute_node_literal_any_floating_datatype)] else [])
   @ (if issubclass d dt_Interval
      then map (\<lambda>x. ([ops_Literal, x, dt_Interval], h_execute_interval_literal))
             (filter (issubclass c) (timedelta_types ct @ [py_str] @ integer_types ct))
      else [])"
  unfolding literal_registry_def
  by (simp add: matching_register3 matching_register2 matching_Nil issubclass_refl
        issubclass_object)

lemma resolve_literal_integer:
  "isinstance_dt t dt_Integer \<Longrightarrow>
   resolve (literal_registry ct) [ops_Literal, c, type_of t]
     = Inr h_execute_node_literal_any_integer_datatype"
  by (cases t)
    (simp_all add: isinstance_dt_def resolve_def literal_matching more_specific_def
       supercedes3 issubclass_def)

lemma resolve_literal_boolean:
  "isinstance_dt t dt_Boolean \<Longrightarrow>
   resolve (literal_registry ct) [ops_Literal, c, type_of t]
     = Inr h_execute_node_literal_any_boolean_datatype"
  by (cases t)
    (simp_all add: isinstance_dt_def resolve_def literal_matching more_specific_def
       supercedes3 issubclass_def)

lemma resolve_literal_floating:
  "isinstance_dt t dt_Floating \<Longrightarrow>
   resolve (literal_registry ct) [ops_Literal, c, type_of t]
     = Inr h_execute_node_literal_any_floating_datatype"
  by (cases t)
    (simp_all add: isinstance_dt_def resolve_def literal_matching more_specific_def
       supercedes3 issubclass_def)

text \<open>
  C10: evaluating a Literal node whose declared logical type \<open>t\<close> is an integer
  type returns \<open>int(value)\<close>, for a boolean type \<open>bool(value)\<close> and for a
  floating point type \<open>float(value)\<close>, whatever the class of the stored value
  and whatever the scalar class tuples are; where the coercion raises, so does
  the evaluation. In particular \<open>True\<close> typed as an integer evaluates to the
  integer 1.
\<close>

theorem C10_literal_coercion:
  "(isinstance_dt t dt_Integer \<longrightarrow> execute_literal B ct v t = builtin_int B v)
   \<and> (isinstance_dt t dt_Boolean \<longrightarrow> execute_literal B ct v t = Inr (builtin_bool B v))
   \<and> (isinstance_dt t dt_Floating \<longrightarrow> execute_literal B ct v t = builtin_float B v)
   \<and> execute_literal B ct (PBool True) Int64 = Inr (PInt 1)"
proof -
  have "isinstance_dt Int64 dt_Integer"
    by (simp add: isinstance_dt_def issubclass_def)
  then have "execute_literal B ct (PBool True) Int64 = Inr (PInt 1)"
    by (simp only: execute_literal_def resolve_literal_integer) (simp add: bind_def)
  then show ?thesis
    by (simp add: execute_literal_def resolve_literal_integer resolve_literal_boolean
          resolve_literal_floating bind_def)
qed

theorem C10_literal_coercion_witness:
  "execute_literal whole_builtins dask_core (PBool True) Int8 = Inr (PInt 1)
   \<and> execute_literal whole_builtins dask_core (PInt 0) Boolean = Inr (PBool False)
   \<and> execute_literal whole_builtins dask_core (PStr ''x'') Boolean = Inr (PBool True)
   \<and> execute_literal whole_builtins dask_core (PInt 2) Float64 = Inr (PFloat 2)
   \<and> execute_literal whole_builtins dask_core PNone UInt16
       = Inl (TypeError ''int() argument must be a string, a bytes-like object or a number'')"
  using C10_literal_coercion [of Int8 whole_builtins dask_core "PBool True"]
    C10_literal_coercion [of Boolean whole_builtins dask_core "PInt 0"]
    C10_literal_coercion [of Boolean whole_builtins dask_core "PStr ''x''"]
    C10_literal_coercion [of Float64 whole_builtins dask_core "PInt 2"]
    C10_literal_coercion [of UInt16 whole_builtins dask_core PNone]
  by (simp add: isinstance_dt_def issubclass_def whole_builtins_def bind_def)

subsection \<open>Where\<close>

lemma set_matching: "set (matching reg tys) = {e \<in> set reg. supercedes tys (fst e)}"
  by (auto simp add: matching_def)

lemma set_register:
  "set (register types h reg) = set reg \<union> (\<lambda>s. (s, h)) ` set (expand types)"
  by (auto simp add: register_def)

lemma set_fold_register:
  "set (fold (\<lambda>s. register (f s) h) xs reg) =
     set reg \<union> (\<Union>s \<in> set xs. (\<lambda>sig. (sig, h)) ` set (expand (f s)))"
  by (induction xs arbitrary: reg) (auto simp add: set_register)

lemma issubclass_dd_Series: "issubclass c dd_Series \<longleftrightarrow> c = dd_Series"
  by (cases c) (simp_all add: issubclass_def)

lemma where_series_scalar_series_matching:
  assumes "\<forall>c \<in> set (scalar_types ct @ boolean_types ct). \<not> issubclass dd_Series c"
    and "c \<noteq> dd_Series"
  shows "matching (where_registry ct) [ops_Where, dd_Series, c, dd_Series] = []"
proof -
  have "set (matching (where_registry ct) [ops_Where, dd_Series, c, dd_Series]) = {}"
    using assms unfolding where_registry_def set_matching
    by (auto simp add: set_register set_fold_register set_expand list_all2_Cons2
          supercedes_def list_all2_Cons1 issubclass_dd_Series)
  then show ?thesis by simp
qed

lemmas dispatch_eval_defs =
  dask_core_def register_def resolve_def matching_def supercedes_def issubclass_def
  more_specific_def

lemma where_scalar_series_series_resolve:
  "resolve (where_registry dask_core) [ops_Where, py_bool, dd_Series, dd_Series]
     = Inr h_execute_node_where_scalar_scalar_scalar"
  by (simp add: where_registry_def dispatch_eval_defs)

lemma where_series_series_series_resolve:
  "resolve (where_registry dask_core) [ops_Where, dd_Series, dd_Series, dd_Series]
     = Inr h_execute_node_where_series_series_series"
  by (simp add: where_registry_def dispatch_eval_defs)

lemma where_scalar_condition_selects_branch:
  "execute_node_where_scalar_scalar_scalar True [CInt 1, CInt 2] [CInt 9, CInt 9]
     = [CInt 1, CInt 2]"
  by (simp add: execute_node_where_scalar_scalar_scalar_def)

text \<open>
  C8: the combination of a column condition, a scalar true branch and a column
  false branch is not supported. The function written for it,
  \<open>execute_node_where_series_scalar_scalar\<close>, is registered only for
  \<open>(Where, Series, scalar, scalar)\<close>, and no other registration for \<open>ops.Where\<close>
  accepts a column condition with a column false branch unless the true branch
  is a column too: resolution for \<open>(Where, Series, c, Series)\<close> fails with
  \<open>NotImplementedError\<close> for every class \<open>c\<close> other than the column class, so for
  \<open>Where(cond=[True, False], true=1, false=[9, 9])\<close> the scalar 1 is not
  broadcast and no value is returned. (No class of the scalar tuples is a
  superclass of the column class.)
\<close>

theorem C8_where_series_scalar_series_unsupported:
  assumes "\<forall>c \<in> set (scalar_types ct @ boolean_types ct). \<not> issubclass dd_Series c"
    and "c \<noteq> dd_Series"
  shows "resolve (where_registry ct) [ops_Where, dd_Series, c, dd_Series]
           = Inl (NotImplementedError ''Could not find signature'')"
  by (simp add: resolve_def where_series_scalar_series_matching [OF assms])

theorem C8_where_series_scalar_series_unsupported_witness:
  "resolve (where_registry dask_core) [ops_Where, dd_Series, py_int, dd_Series]
     = Inl (NotImplementedError ''Could not find signature'')"
proof -
  have h: "\<forall>c \<in> set (scalar_types dask_core @ boolean_types dask_core).
      \<not> issubclass dd_Series c"
    by (simp add: dask_core_def issubclass_def)
  show ?thesis
    by (rule C8_where_series_scalar_series_unsupported [OF h]) simp
qed

subsection \<open>Row-wise reductions\<close>

lemma sized_len_None: "sized_len x = None \<longleftrightarrow> \<not> is_array x \<and> \<not> is_str x"
  by (cases x rule: sized_len.cases) (simp_all add: is_array_def is_str_def)

lemma map_filter_Nil: "List.map_filter f xs = [] \<longleftrightarrow> (\<forall>x \<in> set xs. f x = None)"
  by (induction xs) (auto simp add: List.map_filter_simps split: option.splits)

lemma set_map_filter: "set (List.map_filter f xs) = {y. \<exists>x \<in> set xs. f x = Some y}"
  by (induction xs) (auto simp add: List.map_filter_simps split: option.splits)

lemma row_reduction_of_scalars:
  assumes "\<forall>x \<in> set value. \<not> is_array x \<and> \<not> is_str x"
  shows "compute_row_reduction func squeeze value = func (map raw_operand value)"
proof -
  have "final_sizes value = []"
    using assms by (simp add: final_sizes_def map_filter_Nil sized_len_None)
  then show ?thesis by (simp add: compute_row_reduction_def)
qed

lemma remdups_singleton:
  assumes "set xs = {n}" shows "remdups xs = [n]"
proof -
  have "length (remdups xs) = 1"
    using assms by (simp add: length_remdups_card_conv)
  then obtain a where a: "remdups xs = [a]"
    by (cases "remdups xs") auto
  have "set xs = set (remdups xs)" by simp
  also have "\<dots> = {a}" by (simp only: a) simp
  finally have "a = n" using assms by auto
  with a show ?thesis by simp
qed

lemma final_sizes_common:
  assumes "\<forall>x \<in> set value. \<not> is_str x"
    and "\<exists>x \<in> set value. is_array x"
    and "\<forall>x \<in> set value. is_array x \<longrightarrow> sized_len x = Some n"
  shows "final_sizes value = [n]"
proof -
  have "set (List.map_filter sized_len value) = {n}"
  proof (rule set_eqI)
    fix y
    show "y \<in> set (List.map_filter sized_len value) \<longleftrightarrow> y \<in> {n}"
    proof
      assume "y \<in> set (List.map_filter sized_len value)"
      then obtain x where x: "x \<in> set value" "sized_len x = Some y"
        by (auto simp add: set_map_filter)
      then have "sized_len x \<noteq> None" by simp
      then have "is_array x \<or> is_str x" by (simp add: sized_len_None)
      then have "is_array x" using assms(1) x(1) by auto
      then have "sized_len x = Some n" using assms(3) x(1) by auto
      then show "y \<in> {n}" using x(2) by simp
    next
      assume "y \<in> {n}"
      moreover obtain x where "x \<in> set value" "is_array x" using assms(2) by auto
      moreover then have "sized_len x = Some n" using assms(3) by auto
      ultimately show "y \<in> set (List.map_filter sized_len value)"
        by (auto simp add: set_map_filter)
    qed
  qed
  then show ?thesis
    by (simp add: final_sizes_def remdups_singleton)
qed

lemma promoted_lengths:
  assumes "\<forall>x \<in> set value. is_array x \<longrightarrow> sized_len x = Some n"
    and "a \<in> set (map (promote_to_sequence n) value)"
  shows "\<exists>cs. a = Arr cs \<and> length cs = n"
proof -
  obtain x where x: "x \<in> set value" "a = promote_to_sequence n x"
    using assms(2) by auto
  show ?thesis
  proof (cases x)
    case (OScalar c)
    then show ?thesis using x by simp
  next
    case (OColumn s)
    then have "is_array x" by (simp add: is_array_def)
    then have "sized_len x = Some n" using assms(1) x(1) by blast
    then show ?thesis using x OColumn by simp
  qed
qed

lemma row_reduction_length_mismatch:
  assumes "x \<in> set value" "y \<in> set value" "sized_len x = Some n" "sized_len y = Some m" "n \<noteq> m"
  shows "compute_row_reduction func squeeze value = Inl (ValueError ''too many values to unpack (expected 1)'')"
proof -
  have "n \<in> set (final_sizes value)" "m \<in> set (final_sizes value)"
    using assms by (auto simp add: final_sizes_def set_map_filter)
  then obtain a b rest where "final_sizes value = a # b # rest"
    using assms(5) by (cases "final_sizes value"; cases "tl (final_sizes value)") auto
  then show ?thesis by (simp add: compute_row_reduction_def)
qed

lemma row_reduction_broadcast:
  assumes "\<forall>x \<in> set value. \<not> is_str x"
    and "\<exists>x \<in> set value. is_array x"
    and "\<forall>x \<in> set value. is_array x \<longrightarrow> sized_len x = Some n"
  shows "compute_row_reduction func squeeze value =
           bind (func (map (promote_to_sequence n) value)) squeeze"
  by (simp add: compute_row_reduction_def final_sizes_common [OF assms])

text \<open>
  C7: a scalar operand that is a string is not broadcast. A string is an instance
  of \<open>Sized\<close>, so its number of characters is counted among the sizes of the
  array operands: coalescing the column \<open>[x, None, z]\<close> with the scalar
  \<open>unknown\<close> fails with \<open>ValueError\<close> (the sizes are 3 and 7) where the scalar
  should be repeated three times, and with the scalars \<open>ab\<close> and \<open>c\<close>, no operand
  being an array, the reduction is not applied to the scalars but fails in the
  same way. This holds for each of the three reductions \<open>func\<close>.
\<close>

theorem C7_string_scalar_not_broadcast:
  "compute_row_reduction func squeeze
     [OColumn \<lparr>sname = ''a'', sindex = [CInt 0, CInt 1, CInt 2],
                svalues = [CStr ''x'', CNull, CStr ''z''], sdtype = dtype_object\<rparr>,
      OScalar (CStr ''unknown'')]
     = Inl (ValueError ''too many values to unpack (expected 1)'')
   \<and> compute_row_reduction func squeeze [OScalar (CStr ''ab''), OScalar (CStr ''c'')]
     = Inl (ValueError ''too many values to unpack (expected 1)'')"
  by (simp add: compute_row_reduction_def final_sizes_def List.map_filter_simps)

subsection \<open>Cast to the type the operand already has\<close>

lemma issubclass_datetime:
  "issubclass datetime_datetime c \<longleftrightarrow> c = datetime_datetime \<or> c = datetime_date \<or> c = py_object"
  by (auto simp add: issubclass_def)

lemma datetime_matching:
  assumes "\<forall>c \<in> set (integer_types ct @ fixed_width_types ct). \<not> issubclass datetime_datetime c"
  shows "matching (cast_registry ct) [ops_Cast, datetime_datetime, dt_Timestamp] =
           [([ops_Cast, datetime_datetime, dt_Timestamp], h_execute_cast_datetime_to_datetime)]"
proof -
  have 1: "filter (issubclass datetime_datetime) (integer_types ct) = []"
    using assms by (auto simp: filter_empty_conv)
  have 2: "filter (issubclass datetime_datetime) (fixed_width_types ct) = []"
    using assms by (auto simp: filter_empty_conv)
  show ?thesis
    unfolding cast_registry_def
    by (simp add: matching_register3 matching_Nil 1 2 issubclass_datetime issubclass_def)
qed

lemma cast_series_matching:
  assumes "\<forall>c \<in> set (integer_types ct @ fixed_width_types ct). \<not> issubclass dd_Series c"
  shows "matching (cast_registry ct) [ops_Cast, dd_Series, d] =
      (if issubclass d dt_DataType then [([ops_Cast, dd_Series, dt_DataType], h_execute_cast_series_generic)] else [])
    @ (if issubclass d dt_Array then [([ops_Cast, dd_Series, dt_Array], h_execute_cast_series_array)] else [])
    @ (if issubclass d dt_Timestamp then [([ops_Cast, dd_Series, dt_Timestamp], h_execute_cast_series_timestamp)] else [])
    @ (if issubclass d dt_Date then [([ops_Cast, dd_Series, dt_Date], h_execute_cast_series_date)] else [])"
proof -
  have 1: "filter (issubclass dd_Series) (integer_types ct) = []"
    using assms by (auto simp: filter_empty_conv)
  have 2: "filter (issubclass dd_Series) (fixed_width_types ct) = []"
    using assms by (auto simp: filter_empty_conv)
  have 3: "issubclass dd_Series c \<longleftrightarrow> c = dd_Series \<or> c = py_object" for c
    by (auto simp add: issubclass_def)
  show ?thesis
    unfolding cast_registry_def
    by (simp add: matching_register3 matching_Nil 1 2 3 issubclass_refl)
qed

lemma cast_series_resolve_timestamp:
  assumes "\<forall>c \<in> set (integer_types ct @ fixed_width_types ct). \<not> issubclass dd_Series c"
  shows "resolve (cast_registry ct) [ops_Cast, dd_Series, type_of (Timestamp tz)] = Inr h_execute_cast_series_timestamp"
  by (simp add: resolve_def cast_series_matching [OF assms] issubclass_def more_specific_def supercedes3)

lemma cast_series_resolve_date:
  assumes "\<forall>c \<in> set (integer_types ct @ fixed_width_types ct). \<not> issubclass dd_Series c"
  shows "resolve (cast_registry ct) [ops_Cast, dd_Series, type_of Date] = Inr h_execute_cast_series_date"
  by (simp add: resolve_def cast_series_matching [OF assms] issubclass_def more_specific_def supercedes3)

lemma cast_series_same_type_noop:
  assumes "arg_type op = type"
  shows "execute_cast_series_timestamp K op data type = Inr data"
    and "execute_cast_series_date K op data type = Inr data"
    and "dict_get (IBIS_TYPE_TO_DASK_TYPE C) type = Some (sdtype data) \<Longrightarrow>
         execute_cast_series_generic C K op data type = Inr data"
  using assms
  by (simp_all add: execute_cast_series_timestamp_def execute_cast_series_date_def
        execute_cast_series_generic_def astype_def)

text \<open>
  C5: a Cast node whose source type equals its target type is not always a no-op.
  For a scalar operand of class \<open>datetime.datetime\<close> and a timestamp target,
  resolution selects \<open>execute_cast_datetime_to_datetime\<close>, which reads \<open>data.tz\<close>
  (in \<open>execute_cast_timestamp_to_timestamp\<close>) before it compares the timezones:
  a \<open>datetime.datetime\<close> has no attribute \<open>tz\<close>, so the cast of such a value to
  the timestamp type it already has raises \<open>AttributeError\<close> instead of
  returning the value. (No class of the scalar tuples is a superclass of
  \<open>datetime.datetime\<close>.)
\<close>

theorem C5_cast_datetime_to_same_type_fails:
  assumes "\<forall>c \<in> set (integer_types ct @ fixed_width_types ct).
             \<not> issubclass datetime_datetime c"
  shows "resolve (cast_registry ct)
           [ops_Cast, class_of_point (py_datetime i tz), type_of (Timestamp tz)]
           = Inr h_execute_cast_datetime_to_datetime
       \<and> execute_cast_datetime_to_datetime P
            \<lparr>arg_type = Timestamp tz, to_type = Timestamp tz\<rparr>
            (py_datetime i tz) (Timestamp tz)
           = Inl (AttributeError (apostrophe @ ''datetime.datetime'' @ apostrophe
               @ '' object has no attribute '' @ apostrophe @ ''tz'' @ apostrophe))"
  by (simp add: resolve_def datetime_matching [OF assms] execute_cast_datetime_to_datetime_def
      execute_cast_timestamp_to_timestamp_def bind_def)

theorem C5_cast_datetime_to_same_type_fails_witness:
  "resolve (cast_registry dask_core) [ops_Cast, datetime_datetime, dt_Timestamp]
     = Inr h_execute_cast_datetime_to_datetime
   \<and> execute_cast_datetime_to_datetime no_point_kernels
        \<lparr>arg_type = Timestamp None, to_type = Timestamp None\<rparr>
        (py_datetime 0 None) (Timestamp None)
     = Inl (AttributeError (apostrophe @ ''datetime.datetime'' @ apostrophe
         @ '' object has no attribute '' @ apostrophe @ ''tz'' @ apostrophe))"
proof -
  have h: "\<forall>c \<in> set (integer_types dask_core @ fixed_width_types dask_core).
      \<not> issubclass datetime_datetime c"
    by (simp add: dask_core_def issubclass_def)
  from C5_cast_datetime_to_same_type_fails [OF h, of 0 None no_point_kernels]
  show ?thesis by simp
qed

subsection \<open>Tables under a time context\<close>

lemma between_ints:
  "between (map CInt tvals) (CInt b) (CInt e) = Inr (map (\<lambda>t. b \<le> t \<and> t \<le> e) tvals)"
  by (induction tvals) (simp_all add: between_def bind_def)

lemma select_map: "select (map P xs) (map f xs) = map f (filter P xs)"
  by (induction xs) (simp_all add: select_def)

lemma length_select: "length xs = length ys \<Longrightarrow> length (select (map P xs) ys) = length (filter P xs)"
  by (induction xs ys rule: list_induct2) (simp_all add: select_def)

lemma filter_partition_ints:
  assumes "map_of (pcolumns p) TIME_COL = Some (map CInt tvals)"
    and "length (pindex p) = length tvals"
  shows "filter_partition TIME_COL (CInt b) (CInt e) p = Inr (rows_between b e tvals p)"
  using assms
  by (simp add: filter_partition_def between_ints bind_def reset_index_drop_def
        loc_partition_def rows_between_def length_select)

lemma map_result_Inr:
  "(\<And>x. x \<in> set xs \<Longrightarrow> f x = Inr (g x)) \<Longrightarrow> map_result f xs = Inr (map g xs)"
  by (induction xs) (simp_all add: bind_def)

lemma those_map_CInt:
  "those (map (\<lambda>c. case c of CInt t \<Rightarrow> Some t | _ \<Rightarrow> None) cells) = Some ts \<Longrightarrow> cells = map CInt ts"
proof (induction cells arbitrary: ts)
  case Nil then show ?case by simp
next
  case (Cons c cs)
  then show ?case by (cases c) (auto split: option.splits)
qed

lemma time_values_Some:
  "time_values TIME_COL p = Some ts \<Longrightarrow> map_of (pcolumns p) TIME_COL = Some (map CInt ts)"
  by (auto simp add: time_values_def split: option.splits dest: those_map_CInt)

lemma map_of_map_values:
  "map_of (map (\<lambda>(name, xs). (name, f xs)) kvs) k = map_option f (map_of kvs k)"
  by (induction kvs) auto

lemma rows_between_time:
  assumes "time_values TIME_COL p = Some ts"
  shows "map_of (pcolumns (rows_between b e ts p)) TIME_COL
           = Some (map CInt (filter (\<lambda>t. b \<le> t \<and> t \<le> e) ts))"
proof -
  have m: "map_of (pcolumns p) TIME_COL = Some (map CInt ts)"
    using assms by (rule time_values_Some)
  show ?thesis
    by (simp add: rows_between_def map_of_map_values m select_map)
qed

lemma table_client_closed_interval:
  assumes "dict_get (dictionary client) name = Some df"
    and "TIME_COL \<in> set (fcolumns df)"
    and "\<forall>p \<in> set (partitions df).
           time_values TIME_COL p \<noteq> None \<and> length (pindex p) = length (the (time_values TIME_COL p))"
  shows "execute_database_table_client TIME_COL name client (Some (CInt b, CInt e)) =
           Inr (df\<lparr>partitions :=
                  map (\<lambda>p. rows_between b e (the (time_values TIME_COL p)) p) (partitions df)\<rparr>)"
proof -
  have "map_result (filter_partition TIME_COL (CInt b) (CInt e)) (partitions df)
      = Inr (map (\<lambda>p. rows_between b e (the (time_values TIME_COL p)) p) (partitions df))"
  proof (rule map_result_Inr)
    fix p assume "p \<in> set (partitions df)"
    then obtain ts where ts: "time_values TIME_COL p = Some ts" "length (pindex p) = length ts"
      using assms(3) by fastforce
    then show "filter_partition TIME_COL (CInt b) (CInt e) p
        = Inr (rows_between b e (the (time_values TIME_COL p)) p)"
      by (simp add: filter_partition_ints time_values_Some)
  qed
  then show ?thesis
    using assms(1,2) by (simp add: execute_database_table_client_def bind_def)
qed

text \<open>
  C2, as stated: under the time range \<open>(15, 30)\<close> a table with rows at the times
  10, 20 and 30 yields only the row at 20. It yields the rows at 20 and at 30:
  the upper bound is included.
\<close>

theorem C2_half_open_counterexample:
  "execute_database_table_client ''time'' ''t'' \<lparr>dictionary = [(''t'', example_table)]\<rparr>
     (Some (CInt 15, CInt 30))
   = Inr \<lparr>fcolumns = [''time'', ''v''],
          partitions =
            [\<lparr>pindex = [CInt 0, CInt 1],
              pcolumns = [(''time'', [CInt 20, CInt 30]), (''v'', [CStr ''b'', CStr ''c''])]\<rparr>]\<rparr>
   \<and> execute_database_table_client ''time'' ''t'' \<lparr>dictionary = [(''t'', example_table)]\<rparr>
     (Some (CInt 15, CInt 30))
   \<noteq> Inr \<lparr>fcolumns = [''time'', ''v''],
          partitions =
            [\<lparr>pindex = [CInt 0],
              pcolumns = [(''time'', [CInt 20]), (''v'', [CStr ''b''])]\<rparr>]\<rparr>"
  by (simp add: execute_database_table_client_def dict_get_def example_table_def bind_def
      filter_partition_def between_def loc_partition_def select_def reset_index_drop_def)

text \<open>
  C2, amended: for a table that the client holds and that has the time column,
  with integer times in every partition, evaluation under the time range
  \<open>(b, e)\<close> returns the table with, in every partition, exactly the rows whose
  time \<open>t\<close> satisfies \<open>b \<le> t \<le> e\<close> (both bounds included), in their order and
  under an index reset to count from 0 in that partition; in particular the time
  column of the result holds the times of the closed interval.
\<close>

theorem C2_time_filter_closed_interval:
  assumes "dict_get (dictionary client) name = Some df"
    and "TIME_COL \<in> set (fcolumns df)"
    and "\<forall>p \<in> set (partitions df).
           time_values TIME_COL p \<noteq> None
           \<and> length (pindex p) = length (the (time_values TIME_COL p))"
  shows "execute_database_table_client TIME_COL name client (Some (CInt b, CInt e)) =
           Inr (df\<lparr>partitions :=
                  map (\<lambda>p. rows_between b e (the (time_values TIME_COL p)) p) (partitions df)\<rparr>)
       \<and> (\<forall>p \<in> set (partitions df).
            map_of (pcolumns (rows_between b e (the (time_values TIME_COL p)) p)) TIME_COL
              = Some (map CInt (filter (\<lambda>t. b \<le> t \<and> t \<le> e) (the (time_values TIME_COL p)))))"
proof -
  have "\<forall>p \<in> set (partitions df).
            map_of (pcolumns (rows_between b e (the (time_values TIME_COL p)) p)) TIME_COL
              = Some (map CInt (filter (\<lambda>t. b \<le> t \<and> t \<le> e) (the (time_values TIME_COL p))))"
  proof
    fix p assume "p \<in> set (partitions df)"
    then obtain ts where "time_values TIME_COL p = Some ts"
      using assms(3) by fastforce
    then show "map_of (pcolumns (rows_between b e (the (time_values TIME_COL p)) p)) TIME_COL
              = Some (map CInt (filter (\<lambda>t. b \<le> t \<and> t \<le> e) (the (time_values TIME_COL p))))"
      by (simp add: rows_between_time)
  qed
  then show ?thesis
    using table_client_closed_interval [OF assms] by simp
qed

theorem C2_time_filter_closed_interval_witness:
  "execute_database_table_client ''time'' ''t'' \<lparr>dictionary = [(''t'', example_table)]\<rparr>
     (Some (CInt 20, CInt 25))
   = Inr \<lparr>fcolumns = [''time'', ''v''],
          partitions =
            [\<lparr>pindex = [CInt 0],
              pcolumns = [(''time'', [CInt 20]), (''v'', [CStr ''b''])]\<rparr>]\<rparr>"
proof -
  have 1: "dict_get (dictionary \<lparr>dictionary = [(''t'', example_table)]\<rparr>) ''t''
           = Some example_table"
    by (simp add: dict_get_def)
  have 2: "''time'' \<in> set (fcolumns example_table)"
    by (simp add: example_table_def)
  have 3: "\<forall>p \<in> set (partitions example_table).
           time_values ''time'' p \<noteq> None
           \<and> length (pindex p) = length (the (time_values ''time'' p))"
    by (simp add: example_table_def time_values_def)
  from C2_time_filter_closed_interval [OF 1 2 3, of 20 25]
  show ?thesis
    by (simp add: example_table_def time_values_def rows_between_def select_def)
qed

subsection \<open>Aggregation\<close>









text \<open>
  C3, as stated: an Aggregation node with a having clause and no grouping key
  always fails with the error that filtering aggregation values is not allowed
  without a grouping key. A node that also has sort keys fails earlier, with
  \<open>NotImplementedError\<close>.
\<close>

theorem C3_sort_keys_counterexample:
  "execute_aggregation_dataframe toy_engine
     \<lparr>table = 9, metrics = [2], by_keys = [], having = [0], predicates = [], sort_keys = [3]\<rparr>
     two_rows () ()
   = Inl (NotImplementedError ''sorting on aggregations not yet implemented'')
   \<and> execute_aggregation_dataframe toy_engine
     \<lparr>table = 9, metrics = [2], by_keys = [], having = [0], predicates = [], sort_keys = [3]\<rparr>
     two_rows () ()
   \<noteq> Inl (ValueError (''Filtering out aggregation values is not allowed without at ''
               @ ''least one grouping key''))"
  by (simp add: execute_aggregation_dataframe_def aggregate_def bind_def)

text \<open>
  C3, amended: an Aggregation node with a having clause and no grouping key never
  returns a result, for any having predicate (none is evaluated). It fails with
  the \<open>ValueError\<close> that filtering aggregation values is not allowed without a
  grouping key whenever the part of the function before the having filter
  succeeds; a failure of that part is reported instead: \<open>AssertionError\<close> for a
  node without metrics, \<open>NotImplementedError\<close> for a node with metrics and sort
  keys, or the error of a predicate or a metric.
\<close>

theorem C3_having_without_group_by:
  assumes "having op \<noteq> []" and "by_keys op = []"
  shows "(\<forall>r. execute_aggregation_dataframe E op data scope tc \<noteq> Inr r)
       \<and> (\<forall>pre. aggregate E op data scope tc = Inr pre \<longrightarrow>
            execute_aggregation_dataframe E op data scope tc
              = Inl (ValueError (''Filtering out aggregation values is not allowed without at ''
                       @ ''least one grouping key'')))
       \<and> (\<forall>err. aggregate E op data scope tc = Inl err \<longrightarrow>
            execute_aggregation_dataframe E op data scope tc = Inl err)
       \<and> (metrics op = [] \<longrightarrow>
            execute_aggregation_dataframe E op data scope tc
              = Inl (AssertionError ''no metrics found during aggregation execution''))
       \<and> (metrics op \<noteq> [] \<and> sort_keys op \<noteq> [] \<longrightarrow>
            execute_aggregation_dataframe E op data scope tc
              = Inl (NotImplementedError ''sorting on aggregations not yet implemented''))"
proof -
  have "(\<forall>r. execute_aggregation_dataframe E op data scope tc \<noteq> Inr r)
       \<and> (\<forall>pre. aggregate E op data scope tc = Inr pre \<longrightarrow>
            execute_aggregation_dataframe E op data scope tc
              = Inl (ValueError (''Filtering out aggregation values is not allowed without at ''
                       @ ''least one grouping key'')))
       \<and> (\<forall>err. aggregate E op data scope tc = Inl err \<longrightarrow>
            execute_aggregation_dataframe E op data scope tc = Inl err)"
    using assms
    by (cases "aggregate E op data scope tc")
      (auto simp add: execute_aggregation_dataframe_def bind_def)
  moreover have "metrics op = [] \<longrightarrow>
            execute_aggregation_dataframe E op data scope tc
              = Inl (AssertionError ''no metrics found during aggregation execution'')"
    by (simp add: execute_aggregation_dataframe_def aggregate_def bind_def)
  moreover have "metrics op \<noteq> [] \<and> sort_keys op \<noteq> [] \<longrightarrow>
            execute_aggregation_dataframe E op data scope tc
              = Inl (NotImplementedError ''sorting on aggregations not yet implemented'')"
    by (simp add: execute_aggregation_dataframe_def aggregate_def bind_def)
  ultimately show ?thesis by blast
qed

theorem C3_having_without_group_by_witness:
  "aggregate toy_engine
     \<lparr>table = 9, metrics = [2], by_keys = [], having = [0], predicates = [], sort_keys = []\<rparr>
     two_rows () ()
    = Inr (\<lparr>fcolumns = [''m''],
            partitions = [\<lparr>pindex = [CInt 0, CInt 1],
                           pcolumns = [(''m'', [CInt 2, CInt 2])]\<rparr>]\<rparr>, ())
   \<and> execute_aggregation_dataframe toy_engine
     \<lparr>table = 9, metrics = [2], by_keys = [], having = [0], predicates = [], sort_keys = []\<rparr>
     two_rows () ()
   = Inl (ValueError (''Filtering out aggregation values is not allowed without at ''
               @ ''least one grouping key''))"
proof -
  have a: "aggregate toy_engine
     \<lparr>table = 9, metrics = [2], by_keys = [], having = [0], predicates = [], sort_keys = []\<rparr>
     two_rows () ()
    = Inr (\<lparr>fcolumns = [''m''],
            partitions = [\<lparr>pindex = [CInt 0, CInt 1],
                           pcolumns = [(''m'', [CInt 2, CInt 2])]\<rparr>]\<rparr>, ())"
    by (simp add: aggregate_def bind_def toy_engine_def metric_piece_def rename_columns_def
          dict_get_def)
  from C3_having_without_group_by
    [of "\<lparr>table = 9, metrics = [2], by_keys = [], having = [0], predicates = [],
          sort_keys = []\<rparr>" toy_engine two_rows "()" "()"] a
  show ?thesis by simp
qed



end
